theory Spec2Isabelle
  imports Main
begin

section \<open>Values exchanged with the platform\<close>

text \<open>
  The chat client lives in two places of the repository: the view component
  (\<^verbatim>\<open>HomeView.vue\<close>, functions \<^verbatim>\<open>initWebSocket\<close> ... \<^verbatim>\<open>updateUsername\<close>) and the
  service class \<^verbatim>\<open>Websocket\<close> of \<^verbatim>\<open>services/websocket.js\<close>. Both are embedded
  below over one model of what the browser gives them: WebSocket objects and timers.

  A value produced by \<^verbatim>\<open>JSON.parse\<close> or handed to \<^verbatim>\<open>JSON.stringify\<close>. Strings are
  lists of 8-bit characters; numbers are carried as integers (the code never computes
  with a parsed number).
\<close>

datatype json =
    JNull
  | JBool bool
  | JNum int
  | JStr string
  | JArr "json list"
  | JObj "(string \<times> json) list"

text \<open>Exceptions and promise rejections that the modelled code can meet.\<close>

datatype js_error =
    TypeError \<comment> \<open>property access on \<^verbatim>\<open>null\<close>\<close>
  | InvalidStateError \<comment> \<open>\<^verbatim>\<open>WebSocket.send\<close> during the handshake\<close>
  | NotInitializedError \<comment> \<open>\<^verbatim>\<open>new Error('WebSocket is not initialized')\<close>\<close>
  | MaxAttemptsError int \<comment> \<open>\<^verbatim>\<open>new Error(`Maximum number of attempts (${n}) exceeded.`)\<close>\<close>

text \<open>What \<^verbatim>\<open>console.error\<close> is called with (\<^verbatim>\<open>console.log\<close> is not modelled).\<close>

datatype report =
    NotInitialized \<comment> \<open>\<^verbatim>\<open>console.error('WebSocket is not initialized')\<close>\<close>
  | ErrorSendingMessage js_error \<comment> \<open>\<^verbatim>\<open>console.error('Error sending message:', err)\<close>\<close>
  | ConnectionError \<comment> \<open>\<^verbatim>\<open>console.error('WebSocket Connection error: ', e)\<close>\<close>
  | CloseEvent \<comment> \<open>\<^verbatim>\<open>console.error(e)\<close> in \<^verbatim>\<open>Websocket.onClose\<close>\<close>

text \<open>How the promise returned by an \<^verbatim>\<open>async\<close> function stands after a step.\<close>

datatype settled = Pending | Fulfilled | Rejected js_error

datatype ready_state = CONNECTING | OPEN | CLOSING | CLOSED

record websocket =
  readyState :: ready_state
  sent :: "json list" \<comment> \<open>the objects given to \<^verbatim>\<open>send(JSON.stringify(...))\<close>, in order\<close>

record 'cb timer =
  repeats :: bool \<comment> \<open>\<^verbatim>\<open>setInterval\<close> (True) or \<^verbatim>\<open>setTimeout\<close> (False)\<close>
  delay :: int
  callback :: 'cb

text \<open>
  The platform state: every WebSocket object created so far, under its handle, and
  every timer that is armed (a cleared or expired timer is removed). Timer ids start
  at 1, as in a browser, so a stored id is truthy.
\<close>

record 'cb browser =
  sockets :: "nat \<rightharpoonup> websocket"
  nextSocket :: nat
  timers :: "nat \<rightharpoonup> 'cb timer"
  nextTimer :: nat
  console :: "report list"

definition new_WebSocket :: "('cb, 'a) browser_scheme \<Rightarrow> nat \<times> ('cb, 'a) browser_scheme" where
  "new_WebSocket s =
     (nextSocket s,
      s\<lparr>sockets := (sockets s)(nextSocket s \<mapsto> \<lparr>readyState = CONNECTING, sent = []\<rparr>),
        nextSocket := Suc (nextSocket s)\<rparr>)"

definition readyState_of :: "('cb, 'a) browser_scheme \<Rightarrow> nat \<Rightarrow> ready_state option" where
  "readyState_of s h = map_option readyState (sockets s h)"

definition set_readyState ::
  "nat \<Rightarrow> ready_state \<Rightarrow> ('cb, 'a) browser_scheme \<Rightarrow> ('cb, 'a) browser_scheme" where
  "set_readyState h r s =
     (case sockets s h of
        None \<Rightarrow> s
      | Some w \<Rightarrow> s\<lparr>sockets := (sockets s)(h \<mapsto> w\<lparr>readyState := r\<rparr>)\<rparr>)"

text \<open>
  \<^verbatim>\<open>WebSocket.send\<close>: throws during the handshake, transmits when open, and drops the
  data silently once the socket is closing or closed.
\<close>

definition ws_send ::
  "nat \<Rightarrow> json \<Rightarrow> ('cb, 'a) browser_scheme \<Rightarrow> js_error + ('cb, 'a) browser_scheme" where
  "ws_send h d s =
     (case sockets s h of
        None \<Rightarrow> Inl TypeError
      | Some w \<Rightarrow>
          (case readyState w of
             CONNECTING \<Rightarrow> Inl InvalidStateError
           | OPEN \<Rightarrow> Inr (s\<lparr>sockets := (sockets s)(h \<mapsto> w\<lparr>sent := sent w @ [d]\<rparr>)\<rparr>)
           | CLOSING \<Rightarrow> Inr s
           | CLOSED \<Rightarrow> Inr s))"

text \<open>
  \<^verbatim>\<open>WebSocket.close\<close>: starts the closing handshake; the close event comes later
  as an event of its own.
\<close>

definition ws_close :: "nat \<Rightarrow> ('cb, 'a) browser_scheme \<Rightarrow> ('cb, 'a) browser_scheme" where
  "ws_close h s =
     (case readyState_of s h of
        Some CONNECTING \<Rightarrow> set_readyState h CLOSING s
      | Some OPEN \<Rightarrow> set_readyState h CLOSING s
      | _ \<Rightarrow> s)"

definition setTimer ::
  "'cb timer \<Rightarrow> ('cb, 'a) browser_scheme \<Rightarrow> nat \<times> ('cb, 'a) browser_scheme" where
  "setTimer tm s =
     (nextTimer s, s\<lparr>timers := (timers s)(nextTimer s \<mapsto> tm), nextTimer := Suc (nextTimer s)\<rparr>)"

definition setInterval ::
  "'cb \<Rightarrow> int \<Rightarrow> ('cb, 'a) browser_scheme \<Rightarrow> nat \<times> ('cb, 'a) browser_scheme" where
  "setInterval cb ms s = setTimer \<lparr>repeats = True, delay = ms, callback = cb\<rparr> s"

definition setTimeout ::
  "'cb \<Rightarrow> int \<Rightarrow> ('cb, 'a) browser_scheme \<Rightarrow> nat \<times> ('cb, 'a) browser_scheme" where
  "setTimeout cb ms s = setTimer \<lparr>repeats = False, delay = ms, callback = cb\<rparr> s"

definition clearInterval :: "nat \<Rightarrow> ('cb, 'a) browser_scheme \<Rightarrow> ('cb, 'a) browser_scheme" where
  "clearInterval t s = s\<lparr>timers := (timers s)(t := None)\<rparr>"

definition console_error :: "report \<Rightarrow> ('cb, 'a) browser_scheme \<Rightarrow> ('cb, 'a) browser_scheme" where
  "console_error r s = s\<lparr>console := console s @ [r]\<rparr>"

text \<open>The WebSocket object under a handle and the armed timer under an id.\<close>

definition socket_at :: "nat \<Rightarrow> ('cb, 'a) browser_scheme \<Rightarrow> websocket option" where
  "socket_at h s = sockets s h"

definition timer_at :: "nat \<Rightarrow> ('cb, 'a) browser_scheme \<Rightarrow> 'cb timer option" where
  "timer_at t s = timers s t"

text \<open>The transports that can still deliver an open or a message event.\<close>

definition live :: "('cb, 'a) browser_scheme \<Rightarrow> nat list" where
  "live s =
     filter (\<lambda>h. readyState_of s h = Some CONNECTING \<or> readyState_of s h = Some OPEN)
       [0 ..< nextSocket s]"

text \<open>
  \<^verbatim>\<open>JSON.parse\<close> and \<^verbatim>\<open>parseInt\<close> belong to the platform and are parameters of the
  model: \<open>JSON_parse\<close> returns \<open>None\<close> where the platform throws a SyntaxError.
  \<open>parseInt\<close> takes \<open>None\<close> for \<^verbatim>\<open>undefined\<close>; it returns \<open>Inr None\<close> for NaN, and
  \<open>Inl\<close> where the conversion of its argument to a string throws (an object whose
  \<^verbatim>\<open>toString\<close> is not callable).
\<close>

record platform =
  JSON_parse :: "string \<Rightarrow> json option"
  parseInt :: "json option \<Rightarrow> js_error + int option"

text \<open>
  Reading the property \<^verbatim>\<open>type\<close> or \<^verbatim>\<open>message\<close> of a parsed value: \<^verbatim>\<open>null\<close> throws,
  an object gives its entry or \<^verbatim>\<open>undefined\<close> (\<open>None\<close>), and a number, string, boolean
  or array has no such property.
\<close>

fun get_prop :: "json \<Rightarrow> string \<Rightarrow> js_error + json option" where
  "get_prop JNull k = Inl TypeError"
| "get_prop (JObj kvs) k = Inr (map_of kvs k)"
| "get_prop v k = Inr None"

section \<open>The view component\<close>

text \<open>\<^verbatim>\<open>CONFIG.webSocket\<close>, as far as the connection code reads it.\<close>

record config =
  reconnectTimeout :: int
  pingIntervalMs :: int \<comment> \<open>\<^verbatim>\<open>CONFIG.webSocket.pingInterval\<close>\<close>
  connectionAttempts :: int
  connectionInterval :: int

text \<open>
  The callbacks the component gives to timers. The readiness poll of
  \<^verbatim>\<open>waitForOpenConnection\<close> keeps \<^verbatim>\<open>currentAttempt\<close> in its closure, and the
  suspended \<^verbatim>\<open>sendChatMessage\<close> keeps \<^verbatim>\<open>messageText\<close>.
\<close>

datatype home_cb = PingCb | ReconnectCb | WaitCb int string

record home = "home_cb browser" +
  socket :: "nat option"
  status :: nat \<comment> \<open>0-closed 1-connected 2-manually closed\<close>
  messages :: "json list"
  pingInterval :: "nat option"
  username :: string
  userCount :: int

definition home_init :: "string \<Rightarrow> home" where
  "home_init name =
     \<lparr>sockets = Map.empty, nextSocket = 0, timers = Map.empty, nextTimer = 1, console = [],
      socket = None, status = 0, messages = [], pingInterval = None,
      username = name, userCount = 0\<rparr>"

definition message_obj :: "string \<Rightarrow> string \<Rightarrow> string \<Rightarrow> string \<Rightarrow> json" where
  "message_obj ty name msg ts =
     JObj [(''type'', JStr ty), (''name'', JStr name), (''message'', JStr msg),
           (''timestamp'', JStr ts)]"

text \<open>The URL computed by \<^verbatim>\<open>getWebSocketUrl\<close> plays no part in what follows.\<close>

definition initWebSocket :: "home \<Rightarrow> home" where
  "initWebSocket s = (let (h, s1) = new_WebSocket s in s1\<lparr>socket := Some h\<rparr>)"

definition clearPingInterval :: "home \<Rightarrow> home" where
  "clearPingInterval s =
     (case pingInterval s of
        None \<Rightarrow> s
      | Some t \<Rightarrow> (clearInterval t s)\<lparr>pingInterval := None\<rparr>)"

definition startPingInterval :: "config \<Rightarrow> home \<Rightarrow> home" where
  "startPingInterval c s =
     (let s1 = (case pingInterval s of None \<Rightarrow> s | Some t \<Rightarrow> clearInterval t s);
          (t, s2) = setInterval PingCb (pingIntervalMs c) s1
      in s2\<lparr>pingInterval := Some t\<rparr>)"

text \<open>The callback of the ping interval. An exception of \<^verbatim>\<open>send\<close> ends the callback.\<close>

definition pingTick :: "string \<Rightarrow> home \<Rightarrow> home" where
  "pingTick now s =
     (case socket s of
        None \<Rightarrow> clearPingInterval s
      | Some h \<Rightarrow>
          if status s = 1
          then (case ws_send h (message_obj ''PING'' ''System'' ''ping'' now) s of
                  Inl e \<Rightarrow> s
                | Inr s' \<Rightarrow> s')
          else clearPingInterval s)"

definition sendJoinMessage :: "string \<Rightarrow> home \<Rightarrow> home" where
  "sendJoinMessage now s =
     (case socket s of
        None \<Rightarrow> s
      | Some h \<Rightarrow>
          if readyState_of s h \<noteq> Some OPEN then s
          else (case ws_send h (message_obj ''JOIN'' (username s) [] now) s of
                  Inl e \<Rightarrow> s
                | Inr s' \<Rightarrow> s'))"

definition websocketOnOpen :: "config \<Rightarrow> string \<Rightarrow> home \<Rightarrow> home" where
  "websocketOnOpen c now s = sendJoinMessage now (startPingInterval c (s\<lparr>status := 1\<rparr>))"

definition websocketOnError :: "home \<Rightarrow> home" where
  "websocketOnError s = console_error ConnectionError s"

text \<open>
  The \<^verbatim>\<open>catch\<close> branch of \<^verbatim>\<open>websocketOnMessage\<close>: the raw payload becomes a chat
  message of the author System. Everything in the \<^verbatim>\<open>try\<close> block that throws ends
  there: \<^verbatim>\<open>JSON.parse\<close>, reading \<^verbatim>\<open>data.type\<close> of \<^verbatim>\<open>null\<close>, and \<^verbatim>\<open>parseInt\<close>.
\<close>

definition system_message :: "string \<Rightarrow> string \<Rightarrow> json" where
  "system_message now raw =
     JObj [(''name'', JStr ''System''), (''message'', JStr raw), (''timestamp'', JStr now),
           (''type'', JStr ''CHAT'')]"

definition websocketOnMessage :: "platform \<Rightarrow> string \<Rightarrow> string \<Rightarrow> home \<Rightarrow> home" where
  "websocketOnMessage P now raw s =
     (case JSON_parse P raw of
        None \<Rightarrow> s\<lparr>messages := messages s @ [system_message now raw]\<rparr>
      | Some data \<Rightarrow>
          (case get_prop data ''type'' of
             Inl e \<Rightarrow> s\<lparr>messages := messages s @ [system_message now raw]\<rparr>
           | Inr ty \<Rightarrow>
               if ty = Some (JStr ''PONG'') then s
               else if ty = Some (JStr ''USER_COUNT'') then
                 (case get_prop data ''message'' of
                    Inl e \<Rightarrow> s\<lparr>messages := messages s @ [system_message now raw]\<rparr>
                  | Inr m \<Rightarrow>
                      (case parseInt P m of
                         Inl e \<Rightarrow> s\<lparr>messages := messages s @ [system_message now raw]\<rparr>
                       | Inr None \<Rightarrow> s\<lparr>userCount := 0\<rparr>
                       | Inr (Some n) \<Rightarrow> s\<lparr>userCount := n\<rparr>))
               else s\<lparr>messages := messages s @ [data]\<rparr>))"

definition reconnectTick :: "home \<Rightarrow> home" where
  "reconnectTick s = (if status s = 0 then initWebSocket s else s)"

definition websocketClose :: "config \<Rightarrow> home \<Rightarrow> home" where
  "websocketClose c s =
     (let s1 = clearPingInterval s
      in if status s1 \<noteq> 2
         then snd (setTimeout ReconnectCb (reconnectTimeout c) (s1\<lparr>status := 0\<rparr>))
         else s1\<lparr>status := 2\<rparr>)"

definition closeConnection :: "home \<Rightarrow> home" where
  "closeConnection s =
     (case socket s of
        None \<Rightarrow> s
      | Some h \<Rightarrow> (ws_close h (clearPingInterval (s\<lparr>status := 2\<rparr>)))\<lparr>socket := None\<rparr>)"

text \<open>
  \<^verbatim>\<open>waitForOpenConnection\<close>, the part that runs at the call: the promise is rejected at
  once without a socket, and otherwise the poll is armed with \<^verbatim>\<open>currentAttempt = 0\<close>.
\<close>

definition waitForOpenConnection :: "config \<Rightarrow> string \<Rightarrow> home \<Rightarrow> js_error + home" where
  "waitForOpenConnection c messageText s =
     (case socket s of
        None \<Rightarrow> Inl NotInitializedError
      | Some h \<Rightarrow> Inr (snd (setInterval (WaitCb 0 messageText) (connectionInterval c) s)))"

text \<open>
  One run of the poll's callback for the timer \<open>t\<close> whose closure holds
  \<open>currentAttempt\<close>: how the promise of \<^verbatim>\<open>waitForOpenConnection\<close> stands afterwards.
\<close>

definition waitForOpenConnection_tick ::
  "config \<Rightarrow> nat \<Rightarrow> int \<Rightarrow> string \<Rightarrow> home \<Rightarrow> settled \<times> home" where
  "waitForOpenConnection_tick c t currentAttempt messageText s =
     (if currentAttempt > connectionAttempts c - 1
      then (Rejected (MaxAttemptsError (connectionAttempts c)), clearInterval t s)
      else if (case socket s of None \<Rightarrow> False | Some h \<Rightarrow> readyState_of s h = Some OPEN)
      then (Fulfilled, clearInterval t s)
      else (Pending,
            s\<lparr>timers := (timers s)(t \<mapsto>
                 \<lparr>repeats = True, delay = connectionInterval c,
                  callback = WaitCb (currentAttempt + 1) messageText\<rparr>)\<rparr>))"

text \<open>
  The two statements that build the chat message and send it on \<^verbatim>\<open>socket.value\<close>.
\<close>

definition send_chat :: "string \<Rightarrow> string \<Rightarrow> home \<Rightarrow> js_error + home" where
  "send_chat now messageText s =
     (case socket s of
        None \<Rightarrow> Inl TypeError
      | Some h \<Rightarrow> ws_send h (message_obj ''CHAT'' (username s) messageText now) s)"

text \<open>
  \<^verbatim>\<open>sendChatMessage\<close> up to its first suspension, with the state of the promise it
  returns to its caller.
\<close>

definition sendChatMessage :: "config \<Rightarrow> string \<Rightarrow> string \<Rightarrow> home \<Rightarrow> settled \<times> home" where
  "sendChatMessage c now messageText s =
     (case socket s of
        None \<Rightarrow> (Fulfilled, console_error NotInitialized s)
      | Some h \<Rightarrow>
          if readyState_of s h \<noteq> Some OPEN
          then (case waitForOpenConnection c messageText s of
                  Inl e \<Rightarrow> (Fulfilled, console_error (ErrorSendingMessage e) s)
                | Inr s' \<Rightarrow> (Pending, s'))
          else (case send_chat now messageText s of
                  Inl e \<Rightarrow> (Rejected e, s)
                | Inr s' \<Rightarrow> (Fulfilled, s')))"

text \<open>
  A poll tick followed by what \<^verbatim>\<open>sendChatMessage\<close> does when the awaited promise
  settles (the rest of its \<^verbatim>\<open>try\<close> block, or its \<^verbatim>\<open>catch\<close>).
\<close>

definition sendChatMessage_resume ::
  "config \<Rightarrow> string \<Rightarrow> nat \<Rightarrow> int \<Rightarrow> string \<Rightarrow> home \<Rightarrow> settled \<times> home" where
  "sendChatMessage_resume c now t currentAttempt messageText s =
     (case waitForOpenConnection_tick c t currentAttempt messageText s of
        (Pending, s1) \<Rightarrow> (Pending, s1)
      | (Rejected e, s1) \<Rightarrow> (Fulfilled, console_error (ErrorSendingMessage e) s1)
      | (Fulfilled, s1) \<Rightarrow>
          (case send_chat now messageText s1 of
             Inl e \<Rightarrow> (Fulfilled, console_error (ErrorSendingMessage e) s1)
           | Inr s2 \<Rightarrow> (Fulfilled, s2)))"

text \<open>JavaScript's \<^verbatim>\<open>trim\<close> on 8-bit characters: tab, LF, VT, FF, CR, space, NBSP.\<close>

definition is_ws :: "char \<Rightarrow> bool" where
  "is_ws ch = (of_char ch \<in> {9, 10, 11, 12, 13, 32, 160 :: nat})"

definition trim :: "string \<Rightarrow> string" where
  "trim xs = rev (dropWhile is_ws (rev (dropWhile is_ws xs)))"

definition updateUsername :: "string \<Rightarrow> home \<Rightarrow> home" where
  "updateUsername now s = (if length (trim (username s)) > 0 then sendJoinMessage now s else s)"

text \<open>
  The name field is bound to \<^verbatim>\<open>username\<close> (\<^verbatim>\<open>v-model\<close>): typing a name stores it, and
  the button or the enter key then calls \<^verbatim>\<open>updateUsername\<close>.
\<close>

definition rename :: "string \<Rightarrow> string \<Rightarrow> home \<Rightarrow> home" where
  "rename now newName s = updateUsername now (s\<lparr>username := newName\<rparr>)"

subsection \<open>Events\<close>

text \<open>
  What can happen to the component: the four commands, the events of any socket it
  created (handlers stay attached to every socket), and the firing of any armed timer.
  \<open>step\<close> is \<open>None\<close> where the platform cannot deliver the event. The page offers
  Connect while the status is 0 or 2, and Disconnect, the name field and the message
  field while it is 1; \<open>step\<close> accepts the commands in every state, which only adds
  runs. Unmounting the component is not modelled.
\<close>

datatype event =
    Connect \<comment> \<open>the Connect button: \<^verbatim>\<open>initWebSocket\<close>\<close>
  | Disconnect \<comment> \<open>the Disconnect button: \<^verbatim>\<open>closeConnection\<close>\<close>
  | Send string string \<comment> \<open>current time, text: \<^verbatim>\<open>sendChatMessage\<close>\<close>
  | Rename string string \<comment> \<open>current time, typed name: \<^verbatim>\<open>updateUsername\<close>\<close>
  | WsOpen nat string \<comment> \<open>handle, current time: the socket's \<^verbatim>\<open>onopen\<close>\<close>
  | WsError nat \<comment> \<open>handle: the socket's \<^verbatim>\<open>onerror\<close>\<close>
  | WsMessage nat string string \<comment> \<open>handle, current time, payload: \<^verbatim>\<open>onmessage\<close>\<close>
  | WsClose nat \<comment> \<open>handle: the socket's \<^verbatim>\<open>onclose\<close>\<close>
  | Fire nat string \<comment> \<open>timer id, current time: the timer's callback\<close>

definition fire :: "config \<Rightarrow> string \<Rightarrow> nat \<Rightarrow> home \<Rightarrow> home option" where
  "fire c now t s =
     (case timers s t of
        None \<Rightarrow> None
      | Some tm \<Rightarrow>
          (let s1 = (if repeats tm then s else clearInterval t s)
           in Some (case callback tm of
                      PingCb \<Rightarrow> pingTick now s1
                    | ReconnectCb \<Rightarrow> reconnectTick s1
                    | WaitCb n txt \<Rightarrow> snd (sendChatMessage_resume c now t n txt s1))))"

fun step :: "config \<Rightarrow> platform \<Rightarrow> event \<Rightarrow> home \<Rightarrow> home option" where
  "step c P Connect s = Some (initWebSocket s)"
| "step c P Disconnect s = Some (closeConnection s)"
| "step c P (Send now txt) s = Some (snd (sendChatMessage c now txt s))"
| "step c P (Rename now name) s = Some (rename now name s)"
| "step c P (WsOpen h now) s =
     (if readyState_of s h = Some CONNECTING
      then Some (websocketOnOpen c now (set_readyState h OPEN s)) else None)"
| "step c P (WsError h) s =
     (if readyState_of s h \<in> {None, Some CLOSED} then None else Some (websocketOnError s))"
| "step c P (WsMessage h now raw) s =
     (if readyState_of s h \<in> {Some OPEN, Some CLOSING}
      then Some (websocketOnMessage P now raw s) else None)"
| "step c P (WsClose h) s =
     (if readyState_of s h \<in> {None, Some CLOSED} then None
      else Some (websocketClose c (set_readyState h CLOSED s)))"
| "step c P (Fire t now) s = fire c now t s"

fun run :: "config \<Rightarrow> platform \<Rightarrow> event list \<Rightarrow> home \<Rightarrow> home option" where
  "run c P [] s = Some s"
| "run c P (e # es) s = (case step c P e s of None \<Rightarrow> None | Some s' \<Rightarrow> run c P es s')"

inductive reachable :: "config \<Rightarrow> platform \<Rightarrow> home \<Rightarrow> bool" for c P where
  reach_init: "reachable c P (home_init name)"
| reach_step: "reachable c P s \<Longrightarrow> step c P e s = Some s' \<Longrightarrow> reachable c P s'"

section \<open>The service class\<close>

text \<open>
  The class \<^verbatim>\<open>Websocket\<close> of \<^verbatim>\<open>services/websocket.js\<close>. Its \<^verbatim>\<open>onmessage\<close> handler
  only hands the parsed payload to a callback of the caller and is left out.
\<close>

datatype svc_cb = HeartCb | SvcReconnectCb

record service = "svc_cb browser" +
  ws :: "nat option"
  status_svc :: nat \<comment> \<open>\<^verbatim>\<open>this.status\<close>: 0-closed 1-connected 2-manually closed\<close>
  ping :: int
  pingInterval_svc :: "nat option" \<comment> \<open>\<^verbatim>\<open>this.pingInterval\<close>\<close>
  reconnect :: int

definition Websocket_constructor :: service where
  "Websocket_constructor =
     \<lparr>sockets = Map.empty, nextSocket = 0, timers = Map.empty, nextTimer = 1, console = [],
      ws = None, status_svc = 0, ping = 10000, pingInterval_svc = None, reconnect = 5000\<rparr>"

definition Websocket_connect :: "service \<Rightarrow> service" where
  "Websocket_connect s = (let (h, s1) = new_WebSocket s in s1\<lparr>ws := Some h\<rparr>)"

definition Websocket_heartHandler :: "service \<Rightarrow> service" where
  "Websocket_heartHandler s =
     (let (t, s1) = setInterval HeartCb (ping s) s in s1\<lparr>pingInterval_svc := Some t\<rparr>)"

text \<open>The callback that \<^verbatim>\<open>heartHandler\<close> gives to \<^verbatim>\<open>setInterval\<close>.\<close>

definition heartTick :: "service \<Rightarrow> service" where
  "heartTick s =
     (if status_svc s = 1
      then (case ws s of
              None \<Rightarrow> s
            | Some h \<Rightarrow>
                (case ws_send h (JObj [(''type'', JNum 0)]) s of Inl e \<Rightarrow> s | Inr s' \<Rightarrow> s'))
      else (case pingInterval_svc s of None \<Rightarrow> s | Some t \<Rightarrow> clearInterval t s))"

definition Websocket_onopen :: "service \<Rightarrow> service" where
  "Websocket_onopen s = Websocket_heartHandler (s\<lparr>status_svc := 1\<rparr>)"

definition Websocket_send :: "json \<Rightarrow> service \<Rightarrow> js_error + service" where
  "Websocket_send d s = (case ws s of None \<Rightarrow> Inl TypeError | Some h \<Rightarrow> ws_send h d s)"

text \<open>\<^verbatim>\<open>close()\<close> sets the status before it touches \<^verbatim>\<open>this.ws\<close>.\<close>

definition Websocket_close :: "service \<Rightarrow> js_error option \<times> service" where
  "Websocket_close s =
     (let s1 = s\<lparr>status_svc := 2\<rparr>
      in case ws s1 of None \<Rightarrow> (Some TypeError, s1) | Some h \<Rightarrow> (None, ws_close h s1))"

definition Websocket_onClose :: "service \<Rightarrow> service" where
  "Websocket_onClose s =
     (let s1 = console_error CloseEvent s;
          s2 = s1\<lparr>status_svc := (if status_svc s1 = 2 then status_svc s1 else 0)\<rparr>
      in snd (setTimeout SvcReconnectCb (reconnect s2) s2))"

text \<open>The callback that \<^verbatim>\<open>onClose\<close> gives to \<^verbatim>\<open>setTimeout\<close>.\<close>

definition reconnectTick_svc :: "service \<Rightarrow> service" where
  "reconnectTick_svc s = (if status_svc s = 0 then Websocket_connect s else s)"

datatype svc_event =
    SvcConnect
  | SvcClose
  | SvcOpen nat
  | SvcClosed nat
  | SvcFire nat

fun svc_step :: "svc_event \<Rightarrow> service \<Rightarrow> service option" where
  "svc_step SvcConnect s = Some (Websocket_connect s)"
| "svc_step SvcClose s = Some (snd (Websocket_close s))"
| "svc_step (SvcOpen h) s =
     (if readyState_of s h = Some CONNECTING
      then Some (Websocket_onopen (set_readyState h OPEN s)) else None)"
| "svc_step (SvcClosed h) s =
     (if readyState_of s h \<in> {None, Some CLOSED} then None
      else Some (Websocket_onClose (set_readyState h CLOSED s)))"
| "svc_step (SvcFire t) s =
     (case timers s t of
        None \<Rightarrow> None
      | Some tm \<Rightarrow>
          (let s1 = (if repeats tm then s else clearInterval t s)
           in Some (case callback tm of
                      HeartCb \<Rightarrow> heartTick s1
                    | SvcReconnectCb \<Rightarrow> reconnectTick_svc s1)))"

fun svc_run :: "svc_event list \<Rightarrow> service \<Rightarrow> service option" where
  "svc_run [] s = Some s"
| "svc_run (e # es) s = (case svc_step e s of None \<Rightarrow> None | Some s' \<Rightarrow> svc_run es s')"

section \<open>Notions used to state the properties\<close>

text \<open>The defaults of \<^verbatim>\<open>CONFIG.webSocket\<close>, used when the environment sets nothing.\<close>

definition default_config :: config where
  "default_config =
     \<lparr>reconnectTimeout = 5000, pingIntervalMs = 10000, connectionAttempts = 10,
      connectionInterval = 200\<rparr>"

text \<open>The values of the field \<^verbatim>\<open>type\<close> in the interface \<^verbatim>\<open>ChatMessage\<close>.\<close>

definition message_types :: "string list" where
  "message_types = [''CHAT'', ''JOIN'', ''LEAVE'', ''ERROR'', ''USER_COUNT'', ''PING'', ''PONG'']"

text \<open>A parsed value is an object whose \<^verbatim>\<open>type\<close> is one of these strings.\<close>

definition carries_kind :: "json \<Rightarrow> bool" where
  "carries_kind data =
     (case get_prop data ''type'' of
        Inr (Some (JStr ty)) \<Rightarrow> ty \<in> set message_types
      | _ \<Rightarrow> False)"

text \<open>
  A platform for the examples: it parses the six JSON texts that the examples receive
  as \<^verbatim>\<open>JSON.parse\<close> does and rejects every other payload; its \<^verbatim>\<open>parseInt\<close> reads
  an integer and the string \<^verbatim>\<open>5\<close>, throws on the object whose \<^verbatim>\<open>toString\<close> is the
  number 1, and gives NaN on the other arguments the examples pass.
\<close>

definition example_platform :: platform where
  "example_platform =
     \<lparr>JSON_parse = (\<lambda>raw.
        if raw = ''null'' then Some JNull
        else if raw = ''5'' then Some (JNum 5)
        else if raw = ''{\"type\":\"PING\"}'' then Some (JObj [(''type'', JStr ''PING'')])
        else if raw = ''{\"type\":\"PONG\"}'' then Some (JObj [(''type'', JStr ''PONG'')])
        else if raw = ''{\"type\":\"USER_COUNT\",\"message\":\"5\"}''
          then Some (JObj [(''type'', JStr ''USER_COUNT''), (''message'', JStr ''5'')])
        else if raw = ''{\"type\":\"USER_COUNT\",\"message\":{\"toString\":1}}''
          then Some (JObj [(''type'', JStr ''USER_COUNT''),
                           (''message'', JObj [(''toString'', JNum 1)])])
        else None),
      parseInt = (\<lambda>v.
        case v of
          Some (JNum n) \<Rightarrow> Inr (Some n)
        | Some (JStr x) \<Rightarrow> if x = ''5'' then Inr (Some 5) else Inr None
        | Some (JObj kvs) \<Rightarrow> if kvs = [(''toString'', JNum 1)] then Inl TypeError else Inr None
        | _ \<Rightarrow> Inr None)\<rparr>"

text \<open>The current transport is missing or not open.\<close>

definition not_open :: "home \<Rightarrow> bool" where
  "not_open s = (case socket s of None \<Rightarrow> True | Some h \<Rightarrow> readyState_of s h \<noteq> Some OPEN)"

text \<open>The interval that \<^verbatim>\<open>waitForOpenConnection\<close> arms, with its closure.\<close>

definition wait_timer :: "config \<Rightarrow> int \<Rightarrow> string \<Rightarrow> home_cb timer" where
  "wait_timer c n txt = \<lparr>repeats = True, delay = connectionInterval c, callback = WaitCb n txt\<rparr>"

text \<open>Armed timers of the view by what they run.\<close>

definition is_ping :: "home_cb timer option \<Rightarrow> bool" where
  "is_ping x = (case x of None \<Rightarrow> False | Some tm \<Rightarrow> callback tm = PingCb)"

definition is_reconnect :: "home_cb timer option \<Rightarrow> bool" where
  "is_reconnect x = (case x of None \<Rightarrow> False | Some tm \<Rightarrow> callback tm = ReconnectCb)"

definition heartbeat_timers :: "home \<Rightarrow> nat list" where
  "heartbeat_timers s = filter (\<lambda>t. is_ping (timers s t)) [0 ..< nextTimer s]"

definition heartbeat_active :: "home \<Rightarrow> bool" where
  "heartbeat_active s = (heartbeat_timers s \<noteq> [])"

definition reconnect_timers :: "home \<Rightarrow> nat list" where
  "reconnect_timers s = filter (\<lambda>t. is_reconnect (timers s t)) [0 ..< nextTimer s]"

text \<open>
  Two invariants of the view: every armed heartbeat timer is the one recorded in
  \<^verbatim>\<open>pingInterval\<close> and the status is then 1; handles and timer ids not yet handed out
  are unused.
\<close>

definition hb_inv :: "home \<Rightarrow> bool" where
  "hb_inv s \<longleftrightarrow> (\<forall>t. is_ping (timers s t) \<longrightarrow> pingInterval s = Some t \<and> status s = 1)"

definition fresh :: "('cb, 'a) browser_scheme \<Rightarrow> bool" where
  "fresh s \<longleftrightarrow>
     (\<forall>h. nextSocket s \<le> h \<longrightarrow> sockets s h = None) \<and>
     (\<forall>t. nextTimer s \<le> t \<longrightarrow> timers s t = None)"



section \<open>Inbound messages\<close>

lemma get_prop_throws: "get_prop data k = Inl e \<longleftrightarrow> data = JNull \<and> e = TypeError"
  by (cases data) auto

lemma unrecognized_type:
  assumes "\<not> carries_kind data" and "get_prop data ''type'' = Inr ty"
  shows "ty \<noteq> Some (JStr ''PONG'') \<and> ty \<noteq> Some (JStr ''USER_COUNT'')"
  using assms by (auto simp: carries_kind_def message_types_def)

text \<open>
  C9: when \<^verbatim>\<open>JSON.parse\<close> rejects the payload, the handler appends exactly one message
  with author System, the raw payload as body, kind CHAT and the current timestamp, and
  changes nothing else; the handler returns normally, as on every input.
\<close>

theorem inbound_decode_failure:
  assumes "JSON_parse P raw = None"
  shows "websocketOnMessage P now raw s =
           s\<lparr>messages := messages s @
              [JObj [(''name'', JStr ''System''), (''message'', JStr raw),
                     (''timestamp'', JStr now), (''type'', JStr ''CHAT'')]]\<rparr>"
  using assms by (simp add: websocketOnMessage_def system_message_def)

theorem inbound_decode_failure_witness:
  "JSON_parse example_platform ''hello'' = None \<and>
   messages (websocketOnMessage example_platform ''09:00'' ''hello'' (home_init ''Guest-1'')) =
     [JObj [(''name'', JStr ''System''), (''message'', JStr ''hello''),
            (''timestamp'', JStr ''09:00''), (''type'', JStr ''CHAT'')]]"
proof -
  have p: "JSON_parse example_platform ''hello'' = None"
    by (simp add: example_platform_def)
  show ?thesis
    using p inbound_decode_failure [OF p, of "''09:00''" "home_init ''Guest-1''"]
    by (simp add: home_init_def)
qed

text \<open>
  C2, as stated, fails for PING: the handler has cases for PONG and USER_COUNT only, so
  a PING sent by the peer takes the default branch and is appended to the log.
\<close>

theorem ping_is_logged:
  "JSON_parse example_platform ''{\"type\":\"PING\"}'' = Some (JObj [(''type'', JStr ''PING'')]) \<and>
   messages (home_init ''Guest-1'') = [] \<and>
   messages (websocketOnMessage example_platform ''09:00'' ''{\"type\":\"PING\"}''
     (home_init ''Guest-1'')) = [JObj [(''type'', JStr ''PING'')]]"
  by (simp add: example_platform_def websocketOnMessage_def home_init_def)

text \<open>
  A USER_COUNT whose body \<^verbatim>\<open>parseInt\<close> cannot convert to a string throws inside the
  \<^verbatim>\<open>try\<close> block and ends in the \<^verbatim>\<open>catch\<close> branch like a payload that does not parse.
\<close>

lemma user_count_unreadable:
  assumes "JSON_parse P raw = Some data"
    and "get_prop data ''type'' = Inr (Some (JStr ''USER_COUNT''))"
    and "get_prop data ''message'' = Inr m" and "parseInt P m = Inl e"
  shows "websocketOnMessage P now raw s =
           s\<lparr>messages := messages s @ [system_message now raw]\<rparr>"
  using assms by (simp add: websocketOnMessage_def)

lemma user_count_unreadable_example:
  "messages
     (websocketOnMessage example_platform ''09:00''
        ''{\"type\":\"USER_COUNT\",\"message\":{\"toString\":1}}'' (home_init ''Guest-1''))
     = [system_message ''09:00'' ''{\"type\":\"USER_COUNT\",\"message\":{\"toString\":1}}'']"
  by (simp add: example_platform_def websocketOnMessage_def home_init_def)

text \<open>
  C2, amended: a payload that decodes to a PONG changes no state at all; one that
  decodes to a USER_COUNT whose body \<^verbatim>\<open>parseInt\<close> converts without throwing
  overwrites the user count with the integer read, or with 0 when the result is NaN, and
  leaves the log and everything else unchanged; one that decodes to a PING is appended
  to the log like any other message.
\<close>

theorem pong_and_user_count_not_logged:
  assumes "JSON_parse P raw = Some data"
  shows "(get_prop data ''type'' = Inr (Some (JStr ''PONG'')) \<longrightarrow>
            websocketOnMessage P now raw s = s) \<and>
         (\<forall>m r. get_prop data ''type'' = Inr (Some (JStr ''USER_COUNT'')) \<longrightarrow>
            get_prop data ''message'' = Inr m \<longrightarrow> parseInt P m = Inr r \<longrightarrow>
              websocketOnMessage P now raw s =
                s\<lparr>userCount := (case r of None \<Rightarrow> 0 | Some n \<Rightarrow> n)\<rparr> \<and>
              messages (websocketOnMessage P now raw s) = messages s) \<and>
         (get_prop data ''type'' = Inr (Some (JStr ''PING'')) \<longrightarrow>
            websocketOnMessage P now raw s = s\<lparr>messages := messages s @ [data]\<rparr>)"
proof (intro conjI allI impI)
  assume "get_prop data ''type'' = Inr (Some (JStr ''PONG''))"
  with assms show "websocketOnMessage P now raw s = s"
    by (simp add: websocketOnMessage_def)
next
  fix m r
  assume t: "get_prop data ''type'' = Inr (Some (JStr ''USER_COUNT''))"
    and m: "get_prop data ''message'' = Inr m" and r: "parseInt P m = Inr r"
  from assms t m r
  show u: "websocketOnMessage P now raw s =
             s\<lparr>userCount := (case r of None \<Rightarrow> 0 | Some n \<Rightarrow> n)\<rparr>"
    by (cases r) (simp_all add: websocketOnMessage_def)
  show "messages (websocketOnMessage P now raw s) = messages s"
    by (simp add: u)
next
  assume "get_prop data ''type'' = Inr (Some (JStr ''PING''))"
  with assms show "websocketOnMessage P now raw s = s\<lparr>messages := messages s @ [data]\<rparr>"
    by (simp add: websocketOnMessage_def)
qed

theorem pong_and_user_count_not_logged_witness:
  "JSON_parse example_platform ''{\"type\":\"PONG\"}'' = Some (JObj [(''type'', JStr ''PONG'')]) \<and>
   websocketOnMessage example_platform ''09:00'' ''{\"type\":\"PONG\"}'' (home_init ''Guest-1'')
     = home_init ''Guest-1'' \<and>
   JSON_parse example_platform ''{\"type\":\"USER_COUNT\",\"message\":\"5\"}''
     = Some (JObj [(''type'', JStr ''USER_COUNT''), (''message'', JStr ''5'')]) \<and>
   parseInt example_platform (Some (JStr ''5'')) = Inr (Some 5) \<and>
   userCount (home_init ''Guest-1'') = 0 \<and>
   userCount
     (websocketOnMessage example_platform ''09:00'' ''{\"type\":\"USER_COUNT\",\"message\":\"5\"}''
        (home_init ''Guest-1'')) = 5 \<and>
   messages
     (websocketOnMessage example_platform ''09:00'' ''{\"type\":\"USER_COUNT\",\"message\":\"5\"}''
        (home_init ''Guest-1'')) = []"
proof -
  have p: "JSON_parse example_platform ''{\"type\":\"PONG\"}''
             = Some (JObj [(''type'', JStr ''PONG'')])"
    by (simp add: example_platform_def)
  have q: "JSON_parse example_platform ''{\"type\":\"USER_COUNT\",\"message\":\"5\"}''
             = Some (JObj [(''type'', JStr ''USER_COUNT''), (''message'', JStr ''5'')])"
    by (simp add: example_platform_def)
  have n: "parseInt example_platform (Some (JStr ''5'')) = Inr (Some 5)"
    by (simp add: example_platform_def)
  have i: "userCount (home_init ''Guest-1'') = 0" "messages (home_init ''Guest-1'') = []"
    by (simp_all add: home_init_def)
  have pong: "websocketOnMessage example_platform ''09:00'' ''{\"type\":\"PONG\"}''
                (home_init ''Guest-1'') = home_init ''Guest-1''"
    using pong_and_user_count_not_logged [OF p, of "''09:00''" "home_init ''Guest-1''"]
    by simp
  have count: "websocketOnMessage example_platform ''09:00''
                 ''{\"type\":\"USER_COUNT\",\"message\":\"5\"}'' (home_init ''Guest-1'')
               = (home_init ''Guest-1'')\<lparr>userCount := 5\<rparr>"
    using pong_and_user_count_not_logged [OF q, of "''09:00''" "home_init ''Guest-1''"] n
    by simp
  show ?thesis
    using p q n i pong by (simp add: count)
qed

text \<open>
  C10, as stated, fails for the JSON text \<^verbatim>\<open>null\<close>: it parses, it is not an object
  carrying a kind, and reading its \<^verbatim>\<open>type\<close> throws inside the \<^verbatim>\<open>try\<close> block, so the
  System message is appended in place of the parsed value.
\<close>

theorem parsed_null_not_logged_as_is:
  "JSON_parse example_platform ''null'' = Some JNull \<and> \<not> carries_kind JNull \<and>
   messages (websocketOnMessage example_platform ''09:00'' ''null'' (home_init ''Guest-1''))
     = [system_message ''09:00'' ''null''] \<and>
   system_message ''09:00'' ''null'' \<noteq> JNull"
  by (simp add: example_platform_def websocketOnMessage_def home_init_def system_message_def
      carries_kind_def)

text \<open>
  C10, amended: a payload that parses to a value other than \<^verbatim>\<open>null\<close> and is not an
  object carrying one of the message kinds is appended to the log as it was parsed,
  whatever its shape, and nothing else changes; a payload that parses to \<^verbatim>\<open>null\<close> is
  replaced by the System message.
\<close>

theorem parsed_value_logged_as_is:
  assumes "JSON_parse P raw = Some data" and "\<not> carries_kind data"
  shows "(data \<noteq> JNull \<longrightarrow>
            websocketOnMessage P now raw s = s\<lparr>messages := messages s @ [data]\<rparr>) \<and>
         (data = JNull \<longrightarrow>
            websocketOnMessage P now raw s =
              s\<lparr>messages := messages s @ [system_message now raw]\<rparr>)"
proof (cases "get_prop data ''type''")
  case (Inl e)
  then have "data = JNull" by (simp add: get_prop_throws)
  with assms(1) show ?thesis by (simp add: websocketOnMessage_def)
next
  case (Inr ty)
  then have "data \<noteq> JNull" by auto
  moreover from unrecognized_type [OF assms(2) Inr]
  have "websocketOnMessage P now raw s = s\<lparr>messages := messages s @ [data]\<rparr>"
    using assms(1) Inr by (simp add: websocketOnMessage_def)
  ultimately show ?thesis by simp
qed

theorem parsed_value_logged_as_is_witness:
  "JSON_parse example_platform ''5'' = Some (JNum 5) \<and> \<not> carries_kind (JNum 5) \<and>
   messages (websocketOnMessage example_platform ''09:00'' ''5'' (home_init ''Guest-1''))
     = [JNum 5]"
proof -
  have p: "JSON_parse example_platform ''5'' = Some (JNum 5)"
    by (simp add: example_platform_def)
  have k: "\<not> carries_kind (JNum 5)"
    by (simp add: carries_kind_def)
  show ?thesis
    using p k parsed_value_logged_as_is [OF p k, of "''09:00''" "home_init ''Guest-1''"]
    by (simp add: home_init_def)
qed

section \<open>Outbound messages\<close>

text \<open>The definitions that evaluate a run of the view on a concrete input.\<close>

lemmas view_eval = home_init_def default_config_def example_platform_def initWebSocket_def
  new_WebSocket_def readyState_of_def set_readyState_def ws_send_def ws_close_def setTimer_def
  setInterval_def setTimeout_def clearInterval_def console_error_def clearPingInterval_def
  startPingInterval_def pingTick_def sendJoinMessage_def websocketOnOpen_def
  websocketOnError_def reconnectTick_def websocketClose_def closeConnection_def
  waitForOpenConnection_def waitForOpenConnection_tick_def send_chat_def sendChatMessage_def
  sendChatMessage_resume_def updateUsername_def rename_def fire_def message_obj_def
  wait_timer_def socket_at_def timer_at_def Let_def

lemma send_arms_poll:
  assumes "socket s = Some h" and "readyState_of s h \<noteq> Some OPEN"
  shows "sendChatMessage c now txt s =
           (Pending, s\<lparr>timers := (timers s)(nextTimer s \<mapsto> wait_timer c 0 txt),
                        nextTimer := Suc (nextTimer s)\<rparr>)"
  using assms
  by (simp add: sendChatMessage_def waitForOpenConnection_def setInterval_def setTimer_def
      wait_timer_def)

lemma tick_pending:
  assumes "n \<le> connectionAttempts c - 1" and "not_open s"
  shows "sendChatMessage_resume c now t n txt s =
           (Pending, s\<lparr>timers := (timers s)(t \<mapsto> wait_timer c (n + 1) txt)\<rparr>)"
  using assms
  by (auto simp: sendChatMessage_resume_def waitForOpenConnection_tick_def not_open_def
      wait_timer_def split: option.splits)

lemma tick_sends:
  assumes "n \<le> connectionAttempts c - 1" and "socket s = Some h" and "sockets s h = Some w"
    and "readyState w = OPEN"
  shows "sendChatMessage_resume c now t n txt s =
           (Fulfilled,
            s\<lparr>timers := (timers s)(t := None),
              sockets := (sockets s)(h \<mapsto>
                w\<lparr>sent := sent w @ [message_obj ''CHAT'' (username s) txt now]\<rparr>)\<rparr>)"
  using assms
  by (simp add: sendChatMessage_resume_def waitForOpenConnection_tick_def readyState_of_def
      clearInterval_def send_chat_def ws_send_def)

lemma tick_gives_up:
  assumes "n > connectionAttempts c - 1"
  shows "waitForOpenConnection_tick c t n txt s =
           (Rejected (MaxAttemptsError (connectionAttempts c)), clearInterval t s)"
    and "sendChatMessage_resume c now t n txt s =
           (Fulfilled,
            s\<lparr>timers := (timers s)(t := None),
              console := console s @ [ErrorSendingMessage (MaxAttemptsError (connectionAttempts c))]\<rparr>)"
  using assms
  by (simp_all add: sendChatMessage_resume_def waitForOpenConnection_tick_def
      clearInterval_def console_error_def)

lemma polls_stay_pending:
  assumes "timers s t = Some (wait_timer c n txt)" and "not_open s"
    and "n + int k \<le> connectionAttempts c"
  shows "run c P (replicate k (Fire t now)) s =
           Some (s\<lparr>timers := (timers s)(t \<mapsto> wait_timer c (n + int k) txt)\<rparr>)"
  using assms
proof (induction k arbitrary: n s)
  case 0
  then have "(timers s)(t \<mapsto> wait_timer c n txt) = timers s"
    by (simp add: fun_upd_idem)
  then show ?case by simp
next
  case (Suc k)
  let ?s1 = "s\<lparr>timers := (timers s)(t \<mapsto> wait_timer c (n + 1) txt)\<rparr>"
  from Suc.prems have n: "n \<le> connectionAttempts c - 1" by simp
  have st: "step c P (Fire t now) s = Some ?s1"
    using Suc.prems(1) tick_pending [OF n Suc.prems(2)]
    by (simp add: fire_def wait_timer_def)
  have ih: "run c P (replicate k (Fire t now)) ?s1 =
          Some (?s1\<lparr>timers := (timers ?s1)(t \<mapsto> wait_timer c (n + 1 + int k) txt)\<rparr>)"
    by (rule Suc.IH) (use Suc.prems in \<open>auto simp: not_open_def readyState_of_def split: option.splits\<close>)
  have e: "n + 1 + int k = n + int (Suc k)" by simp
  have "run c P (replicate (Suc k) (Fire t now)) s = run c P (replicate k (Fire t now)) ?s1"
    using st by simp
  also note ih
  also have "?s1\<lparr>timers := (timers ?s1)(t \<mapsto> wait_timer c (n + 1 + int k) txt)\<rparr> =
      s\<lparr>timers := (timers s)(t \<mapsto> wait_timer c (n + int (Suc k)) txt)\<rparr>"
    unfolding e by simp
  finally show ?case .
qed


text \<open>
  C7, as stated, fails: without a transport the call does not fail. \<^verbatim>\<open>sendChatMessage\<close>
  writes \<^verbatim>\<open>WebSocket is not initialized\<close> to \<^verbatim>\<open>console.error\<close> and returns, so the
  promise its caller holds is fulfilled, not rejected with an error.
\<close>

theorem missing_transport_send_completes:
  "socket (home_init ''Guest-1'') = None \<and>
   fst (sendChatMessage default_config ''09:00'' ''hi'' (home_init ''Guest-1'')) = Fulfilled \<and>
   fst (sendChatMessage default_config ''09:00'' ''hi'' (home_init ''Guest-1''))
     \<noteq> Rejected NotInitializedError \<and>
   console (snd (sendChatMessage default_config ''09:00'' ''hi'' (home_init ''Guest-1'')))
     = [NotInitialized]"
  by (simp add: sendChatMessage_def console_error_def home_init_def)

text \<open>
  C7, amended: without a transport, \<^verbatim>\<open>sendChatMessage\<close> reports
  \<^verbatim>\<open>WebSocket is not initialized\<close> through \<^verbatim>\<open>console.error\<close> at once and completes
  normally: the promise of the call is fulfilled, no poll is armed, and the message log
  and every socket (what was sent on the wire) are as before. \<^verbatim>\<open>Websocket.send\<close> of
  the service class, called without a transport, throws a TypeError at once.
\<close>

theorem send_without_transport:
  assumes "socket s = None" and "ws v = None"
  shows "sendChatMessage c now txt s = (Fulfilled, s\<lparr>console := console s @ [NotInitialized]\<rparr>) \<and>
         messages (snd (sendChatMessage c now txt s)) = messages s \<and>
         sockets (snd (sendChatMessage c now txt s)) = sockets s \<and>
         timers (snd (sendChatMessage c now txt s)) = timers s \<and>
         Websocket_send d v = Inl TypeError"
  using assms by (simp add: sendChatMessage_def console_error_def Websocket_send_def)

theorem send_without_transport_witness:
  "socket (home_init ''Guest-1'') = None \<and> ws Websocket_constructor = None \<and>
   fst (sendChatMessage default_config ''09:00'' ''hi'' (home_init ''Guest-1'')) = Fulfilled \<and>
   console (snd (sendChatMessage default_config ''09:00'' ''hi'' (home_init ''Guest-1'')))
     = [NotInitialized] \<and>
   messages (snd (sendChatMessage default_config ''09:00'' ''hi'' (home_init ''Guest-1''))) = [] \<and>
   timers (snd (sendChatMessage default_config ''09:00'' ''hi'' (home_init ''Guest-1'')))
     = timers (home_init ''Guest-1'') \<and>
   Websocket_send (JObj [(''type'', JNum 0)]) Websocket_constructor = Inl TypeError"
proof -
  have n: "socket (home_init ''Guest-1'') = None" by (simp add: home_init_def)
  have m: "ws Websocket_constructor = None" by (simp add: Websocket_constructor_def)
  show ?thesis
    using n m
      send_without_transport [OF n m, of default_config "''09:00''" "''hi''"
        "JObj [(''type'', JNum 0)]"]
    by (simp add: home_init_def)
qed

lemma connect_then_send:
  "run default_config example_platform [Connect, Send ''09:00'' ''hi''] (home_init ''Guest-1'') =
     Some ((home_init ''Guest-1'')
       \<lparr>sockets := [0 \<mapsto> \<lparr>readyState = CONNECTING, sent = []\<rparr>], nextSocket := 1,
         timers := [1 \<mapsto> wait_timer default_config 0 ''hi''], nextTimer := 2,
         socket := Some 0\<rparr>)"
  by (simp add: view_eval)

text \<open>
  C6, as stated, fails in its last part: with the default configuration and a transport
  that never opens, the eleventh tick of the poll rejects the promise of
  \<^verbatim>\<open>waitForOpenConnection\<close> with the error of the exhausted attempts, but
  \<^verbatim>\<open>sendChatMessage\<close> catches it and only logs it, so the promise its caller holds is
  fulfilled.
\<close>

theorem timeout_not_surfaced:
  "map_option (timer_at 1)
     (run default_config example_platform
        (Connect # Send ''09:00'' ''hi'' # replicate 10 (Fire 1 ''09:01'')) (home_init ''Guest-1''))
     = Some (Some (wait_timer default_config 10 ''hi'')) \<and>
   map_option (fst \<circ> waitForOpenConnection_tick default_config 1 10 ''hi'')
     (run default_config example_platform
        (Connect # Send ''09:00'' ''hi'' # replicate 10 (Fire 1 ''09:01'')) (home_init ''Guest-1''))
     = Some (Rejected (MaxAttemptsError 10)) \<and>
   map_option (fst \<circ> sendChatMessage_resume default_config ''09:02'' 1 10 ''hi'')
     (run default_config example_platform
        (Connect # Send ''09:00'' ''hi'' # replicate 10 (Fire 1 ''09:01'')) (home_init ''Guest-1''))
     = Some Fulfilled \<and>
   map_option (console \<circ> snd \<circ> sendChatMessage_resume default_config ''09:02'' 1 10 ''hi'')
     (run default_config example_platform
        (Connect # Send ''09:00'' ''hi'' # replicate 10 (Fire 1 ''09:01'')) (home_init ''Guest-1''))
     = Some [ErrorSendingMessage (MaxAttemptsError 10)] \<and>
   map_option (socket_at 0)
     (run default_config example_platform
        (Connect # Send ''09:00'' ''hi'' # replicate 11 (Fire 1 ''09:01'')) (home_init ''Guest-1''))
     = Some (Some \<lparr>readyState = CONNECTING, sent = []\<rparr>)"
  by (simp add: view_eval numeral_eq_Suc)

lemma gives_up_after_attempts:
  assumes "timers s t = Some (wait_timer c 0 txt)" and "not_open s"
    and "0 \<le> connectionAttempts c"
  shows "run c P (replicate (nat (connectionAttempts c)) (Fire t now) @ [Fire t now]) s =
           Some (s\<lparr>timers := (timers s)(t := None),
                   console := console s @
                     [ErrorSendingMessage (MaxAttemptsError (connectionAttempts c))]\<rparr>)"
proof -
  let ?k = "nat (connectionAttempts c)"
  let ?s1 = "s\<lparr>timers := (timers s)(t \<mapsto> wait_timer c (connectionAttempts c) txt)\<rparr>"
  have "run c P (replicate ?k (Fire t now)) s =
          Some (s\<lparr>timers := (timers s)(t \<mapsto> wait_timer c (0 + int ?k) txt)\<rparr>)"
    by (rule polls_stay_pending) (use assms in simp_all)
  then have a: "run c P (replicate ?k (Fire t now)) s = Some ?s1"
    using assms(3) by simp
  have b: "step c P (Fire t now) ?s1 =
             Some (s\<lparr>timers := (timers s)(t := None),
                     console := console s @
                       [ErrorSendingMessage (MaxAttemptsError (connectionAttempts c))]\<rparr>)"
    using tick_gives_up(2) [of c "connectionAttempts c" "now" t "txt" "?s1"]
    by (simp add: fire_def wait_timer_def)
  have run_app: "\<And>xs ys s0. run c P (xs @ ys) s0 =
      (case run c P xs s0 of None \<Rightarrow> None | Some s' \<Rightarrow> run c P ys s')"
  proof -
    fix xs ys s0
    show "run c P (xs @ ys) s0 = (case run c P xs s0 of None \<Rightarrow> None | Some s' \<Rightarrow> run c P ys s')"
      by (induction xs arbitrary: s0) (auto split: option.splits)
  qed
  show ?thesis
    using a b by (simp add: run_app)
qed

text \<open>
  C6, amended: with a transport that is not open, \<^verbatim>\<open>sendChatMessage\<close> sends nothing
  and arms a poll of period \<^verbatim>\<open>connectionInterval\<close>. A tick among the first
  \<^verbatim>\<open>connectionAttempts\<close> that finds the current transport open stops the poll and sends
  the one chat message, stamped with the username and time of that moment; a tick among
  them that finds it not open only counts. The tick after \<^verbatim>\<open>connectionAttempts\<close>
  unsuccessful ones stops the poll, sends nothing, and the error is logged by
  \<^verbatim>\<open>console.error\<close> while the call completes normally; nothing is retried.
\<close>

theorem send_while_connecting:
  assumes "socket s = Some h" and "readyState_of s h \<noteq> Some OPEN"
    and "sendChatMessage c now txt s = (r, s1)" and "t = nextTimer s"
  shows "r = Pending \<and> sockets s1 = sockets s \<and> messages s1 = messages s \<and>
         timers s1 = (timers s)(t \<mapsto> wait_timer c 0 txt) \<and>
         (\<forall>n s2 h2 w. n \<le> connectionAttempts c - 1 \<longrightarrow> socket s2 = Some h2 \<longrightarrow>
            sockets s2 h2 = Some w \<longrightarrow> readyState w = OPEN \<longrightarrow>
              sendChatMessage_resume c now t n txt s2 =
                (Fulfilled,
                 s2\<lparr>timers := (timers s2)(t := None),
                    sockets := (sockets s2)(h2 \<mapsto>
                      w\<lparr>sent := sent w @ [message_obj ''CHAT'' (username s2) txt now]\<rparr>)\<rparr>)) \<and>
         (\<forall>n s2. n \<le> connectionAttempts c - 1 \<longrightarrow> not_open s2 \<longrightarrow>
              sendChatMessage_resume c now t n txt s2 =
                (Pending, s2\<lparr>timers := (timers s2)(t \<mapsto> wait_timer c (n + 1) txt)\<rparr>)) \<and>
         (\<forall>n s2. n > connectionAttempts c - 1 \<longrightarrow>
              waitForOpenConnection_tick c t n txt s2 =
                (Rejected (MaxAttemptsError (connectionAttempts c)), clearInterval t s2) \<and>
              sendChatMessage_resume c now t n txt s2 =
                (Fulfilled,
                 s2\<lparr>timers := (timers s2)(t := None),
                    console := console s2 @
                      [ErrorSendingMessage (MaxAttemptsError (connectionAttempts c))]\<rparr>)) \<and>
         (0 \<le> connectionAttempts c \<longrightarrow>
            run c P (replicate (nat (connectionAttempts c)) (Fire t now) @ [Fire t now]) s1 =
              Some (s1\<lparr>timers := (timers s1)(t := None),
                      console := console s1 @
                        [ErrorSendingMessage (MaxAttemptsError (connectionAttempts c))]\<rparr>))"
proof -
  from send_arms_poll [OF assms(1,2), of c "now" "txt"] assms(3,4)
  have s1: "r = Pending"
    "s1 = s\<lparr>timers := (timers s)(t \<mapsto> wait_timer c 0 txt), nextTimer := Suc (nextTimer s)\<rparr>"
    by simp_all
  have n1: "not_open s1"
    using assms(1,2) by (simp add: s1 not_open_def readyState_of_def)
  have t1: "timers s1 t = Some (wait_timer c 0 txt)" by (simp add: s1)
  have last: "0 \<le> connectionAttempts c \<longrightarrow>
            run c P (replicate (nat (connectionAttempts c)) (Fire t now) @ [Fire t now]) s1 =
              Some (s1\<lparr>timers := (timers s1)(t := None),
                      console := console s1 @
                        [ErrorSendingMessage (MaxAttemptsError (connectionAttempts c))]\<rparr>)"
    using gives_up_after_attempts [OF t1 n1] by blast
  have f1: "sockets s1 = sockets s" and f2: "messages s1 = messages s"
    and f3: "timers s1 = (timers s)(t \<mapsto> wait_timer c 0 txt)"
    by (simp_all add: s1)
  have opened: "\<forall>n s2 h2 w. n \<le> connectionAttempts c - 1 \<longrightarrow> socket s2 = Some h2 \<longrightarrow>
            sockets s2 h2 = Some w \<longrightarrow> readyState w = OPEN \<longrightarrow>
              sendChatMessage_resume c now t n txt s2 =
                (Fulfilled,
                 s2\<lparr>timers := (timers s2)(t := None),
                    sockets := (sockets s2)(h2 \<mapsto>
                      w\<lparr>sent := sent w @ [message_obj ''CHAT'' (username s2) txt now]\<rparr>)\<rparr>)"
    by (intro allI impI) (rule tick_sends)
  have waiting: "\<forall>n s2. n \<le> connectionAttempts c - 1 \<longrightarrow> not_open s2 \<longrightarrow>
              sendChatMessage_resume c now t n txt s2 =
                (Pending, s2\<lparr>timers := (timers s2)(t \<mapsto> wait_timer c (n + 1) txt)\<rparr>)"
    by (intro allI impI) (rule tick_pending)
  have exhausted: "\<forall>n s2. n > connectionAttempts c - 1 \<longrightarrow>
              waitForOpenConnection_tick c t n txt s2 =
                (Rejected (MaxAttemptsError (connectionAttempts c)), clearInterval t s2) \<and>
              sendChatMessage_resume c now t n txt s2 =
                (Fulfilled,
                 s2\<lparr>timers := (timers s2)(t := None),
                    console := console s2 @
                      [ErrorSendingMessage (MaxAttemptsError (connectionAttempts c))]\<rparr>)"
    by (intro allI impI conjI) (rule tick_gives_up, assumption)+
  show ?thesis
    using s1(1) f1 f2 f3 opened waiting exhausted last
    by - (intro conjI, assumption+)
qed


theorem send_while_connecting_witness:
  "case run default_config example_platform [Connect] (home_init ''Guest-1'') of
     None \<Rightarrow> False
   | Some s \<Rightarrow>
       socket s = Some 0 \<and> readyState_of s 0 \<noteq> Some OPEN \<and> nextTimer s = 1 \<and>
       fst (sendChatMessage default_config ''09:00'' ''hi'' s) = Pending \<and>
       timers (snd (sendChatMessage default_config ''09:00'' ''hi'' s)) 1
         = Some (wait_timer default_config 0 ''hi'') \<and>
       map_option console
         (run default_config example_platform (replicate 10 (Fire 1 ''09:00'') @ [Fire 1 ''09:00''])
            (snd (sendChatMessage default_config ''09:00'' ''hi'' s)))
         = Some [ErrorSendingMessage (MaxAttemptsError 10)]"
proof -
  define s where "s = initWebSocket (home_init ''Guest-1'')"
  have r: "run default_config example_platform [Connect] (home_init ''Guest-1'') = Some s"
    by (simp add: s_def)
  have a: "socket s = Some 0" and b: "readyState_of s 0 \<noteq> Some OPEN"
    and t: "(1::nat) = nextTimer s" and k: "console s = []"
    by (simp_all add: s_def view_eval)
  obtain r1 s1 where p: "sendChatMessage default_config ''09:00'' ''hi'' s = (r1, s1)"
    by (cases "sendChatMessage default_config ''09:00'' ''hi'' s")
  have k1: "console s1 = []"
    using p a b k by (auto simp: view_eval split: if_splits)
  have n: "nat (connectionAttempts default_config) = 10" "(0::int) \<le> connectionAttempts default_config"
    "connectionAttempts default_config = 10"
    by (simp_all add: default_config_def)
  from send_while_connecting [OF a b p t, of example_platform] n k1
  have "r1 = Pending \<and> timers s1 1 = Some (wait_timer default_config 0 ''hi'') \<and>
    map_option console
      (run default_config example_platform (replicate 10 (Fire 1 ''09:00'') @ [Fire 1 ''09:00'']) s1)
      = Some [ErrorSendingMessage (MaxAttemptsError 10)]"
    by simp
  with r a b t p show ?thesis by simp
qed


section \<open>Renaming\<close>

text \<open>
  C8, as stated, fails when the current transport is not open. After two clicks on
  Connect the first socket opens: the status is 1, so the name field is shown, but
  \<^verbatim>\<open>socket.value\<close> is the second socket, still in its handshake. Renaming to
  \<^verbatim>\<open>bob\<close> then sends no JOIN on any socket.
\<close>

theorem rename_without_open_transport:
  "trim ''bob'' = ''bob'' \<and>
   map_option status
     (run default_config example_platform
        [Connect, Connect, WsOpen 0 ''09:00'', Rename ''09:01'' ''bob''] (home_init ''Guest-1''))
     = Some 1 \<and>
   map_option username
     (run default_config example_platform
        [Connect, Connect, WsOpen 0 ''09:00'', Rename ''09:01'' ''bob''] (home_init ''Guest-1''))
     = Some ''bob'' \<and>
   map_option socket
     (run default_config example_platform
        [Connect, Connect, WsOpen 0 ''09:00'', Rename ''09:01'' ''bob''] (home_init ''Guest-1''))
     = Some (Some 1) \<and>
   map_option (socket_at 0)
     (run default_config example_platform
        [Connect, Connect, WsOpen 0 ''09:00'', Rename ''09:01'' ''bob''] (home_init ''Guest-1''))
     = Some (Some \<lparr>readyState = OPEN, sent = []\<rparr>) \<and>
   map_option (socket_at 1)
     (run default_config example_platform
        [Connect, Connect, WsOpen 0 ''09:00'', Rename ''09:01'' ''bob''] (home_init ''Guest-1''))
     = Some (Some \<lparr>readyState = CONNECTING, sent = []\<rparr>) \<and>
   map_option nextSocket
     (run default_config example_platform
        [Connect, Connect, WsOpen 0 ''09:00'', Rename ''09:01'' ''bob''] (home_init ''Guest-1''))
     = Some 2"
  by (simp add: view_eval trim_def is_ws_def)

text \<open>
  C8, amended: renaming stores the new name as typed. If its trimmed form is empty, or
  if the current transport is missing or not open, nothing else happens. Otherwise
  exactly one JOIN message carrying the new name is sent on the current transport, and
  nothing else changes: no transport is created and the status stays.
\<close>

theorem rename_effect:
  "(trim newName = [] \<longrightarrow> rename now newName s = s\<lparr>username := newName\<rparr>) \<and>
   (trim newName \<noteq> [] \<longrightarrow> not_open s \<longrightarrow> rename now newName s = s\<lparr>username := newName\<rparr>) \<and>
   (\<forall>h w. trim newName \<noteq> [] \<longrightarrow> socket s = Some h \<longrightarrow> sockets s h = Some w \<longrightarrow>
      readyState w = OPEN \<longrightarrow>
        rename now newName s =
          s\<lparr>username := newName,
            sockets := (sockets s)(h \<mapsto>
              w\<lparr>sent := sent w @ [message_obj ''JOIN'' newName [] now]\<rparr>)\<rparr>)"
  by (auto simp: rename_def updateUsername_def sendJoinMessage_def not_open_def
      readyState_of_def ws_send_def split: option.splits)

theorem rename_effect_witness:
  "case run default_config example_platform [Connect, WsOpen 0 ''09:00''] (home_init ''Guest-1'') of
     None \<Rightarrow> False
   | Some s \<Rightarrow>
       trim ''bob'' \<noteq> [] \<and> socket s = Some 0 \<and>
       sockets s 0 = Some \<lparr>readyState = OPEN, sent = [message_obj ''JOIN'' ''Guest-1'' [] ''09:00'']\<rparr> \<and>
       username (rename ''09:01'' ''bob'' s) = ''bob'' \<and>
       map_option sent (sockets (rename ''09:01'' ''bob'' s) 0) =
         Some [message_obj ''JOIN'' ''Guest-1'' [] ''09:00'', message_obj ''JOIN'' ''bob'' [] ''09:01''] \<and>
       nextSocket (rename ''09:01'' ''bob'' s) = 1 \<and> status (rename ''09:01'' ''bob'' s) = 1"
proof -
  define s where
    "s = websocketOnOpen default_config ''09:00''
           (set_readyState 0 OPEN (initWebSocket (home_init ''Guest-1'')))"
  have r: "run default_config example_platform [Connect, WsOpen 0 ''09:00''] (home_init ''Guest-1'')
             = Some s"
    by (simp add: s_def view_eval)
  have a: "trim ''bob'' \<noteq> []" by (simp add: trim_def is_ws_def)
  have b: "socket s = Some 0"
    and c: "sockets s 0 =
      Some \<lparr>readyState = OPEN, sent = [message_obj ''JOIN'' ''Guest-1'' [] ''09:00'']\<rparr>"
    and d: "nextSocket s = 1" "status s = 1"
    by (simp_all add: s_def view_eval)
  have e: "readyState \<lparr>readyState = OPEN, sent = [message_obj ''JOIN'' ''Guest-1'' [] ''09:00'']\<rparr>
             = OPEN"
    by simp
  from rename_effect [of "''bob''" "''09:01''" s] a b c e
  have "rename ''09:01'' ''bob'' s =
          s\<lparr>username := ''bob'',
            sockets := (sockets s)(0 \<mapsto>
              \<lparr>readyState = OPEN, sent = [message_obj ''JOIN'' ''Guest-1'' [] ''09:00'']\<rparr>
                \<lparr>sent := sent \<lparr>readyState = OPEN,
                                sent = [message_obj ''JOIN'' ''Guest-1'' [] ''09:00'']\<rparr>
                         @ [message_obj ''JOIN'' ''bob'' [] ''09:01'']\<rparr>)\<rparr>"
    by blast
  with r a b c d show ?thesis by simp
qed

section \<open>Invariants of the view\<close>

lemma is_ping_simps [simp]:
  "is_ping None = False"
  "is_ping (Some \<lparr>repeats = r, delay = d, callback = cb\<rparr>) = (cb = PingCb)"
  by (simp_all add: is_ping_def)

lemma hb_inv_init: "hb_inv (home_init name)"
  by (simp add: hb_inv_def home_init_def)

lemma hb_inv_same:
  assumes "hb_inv s" and "timers s' = timers s" and "pingInterval s' = pingInterval s"
    and "status s' = status s"
  shows "hb_inv s'"
  using assms by (simp add: hb_inv_def)

lemma hb_inv_set_readyState: "hb_inv s \<Longrightarrow> hb_inv (set_readyState h r s)"
  by (cases "sockets s h") (simp_all add: hb_inv_def set_readyState_def)

lemma hb_inv_initWebSocket: "hb_inv s \<Longrightarrow> hb_inv (initWebSocket s)"
  by (simp add: hb_inv_def initWebSocket_def new_WebSocket_def)

lemma no_ping_after_clear:
  "hb_inv s \<Longrightarrow> \<not> is_ping (timers (clearPingInterval s) t)"
  by (cases "pingInterval s") (auto simp: hb_inv_def clearPingInterval_def clearInterval_def)

lemma hb_inv_clearPingInterval: "hb_inv s \<Longrightarrow> hb_inv (clearPingInterval s)"
  using no_ping_after_clear [of s] by (simp add: hb_inv_def)

lemma ws_send_fields:
  assumes "ws_send h d s = Inr s'"
  shows "timers s' = timers s" and "nextTimer s' = nextTimer s" and "nextSocket s' = nextSocket s"
    and "console s' = console s"
  using assms
  by (auto simp: ws_send_def split: option.splits ready_state.splits)

lemma ws_send_home_fields:
  fixes s :: home
  assumes "ws_send h d s = Inr s'"
  shows "pingInterval s' = pingInterval s" and "status s' = status s" and "socket s' = socket s"
    and "messages s' = messages s" and "username s' = username s" and "userCount s' = userCount s"
  using assms
  by (auto simp: ws_send_def split: option.splits ready_state.splits)

lemma hb_inv_ws_send: "hb_inv s \<Longrightarrow> ws_send h d s = Inr s' \<Longrightarrow> hb_inv s'"
  by (rule hb_inv_same) (simp_all add: ws_send_fields ws_send_home_fields)

lemma hb_inv_sendJoinMessage: "hb_inv s \<Longrightarrow> hb_inv (sendJoinMessage now s)"
  by (auto simp: sendJoinMessage_def split: option.splits sum.splits dest: hb_inv_ws_send)


lemma ws_close_fields:
  "timers (ws_close h s) = timers s" "nextTimer (ws_close h s) = nextTimer s"
  "nextSocket (ws_close h s) = nextSocket s" "console (ws_close h s) = console s"
  by (auto simp: ws_close_def set_readyState_def readyState_of_def
      split: option.splits ready_state.splits)


lemma clearPingInterval_fields:
  "pingInterval (clearPingInterval s) = None" "status (clearPingInterval s) = status s"
  "socket (clearPingInterval s) = socket s" "sockets (clearPingInterval s) = sockets s"
  "nextSocket (clearPingInterval s) = nextSocket s" "nextTimer (clearPingInterval s) = nextTimer s"
  "messages (clearPingInterval s) = messages s" "console (clearPingInterval s) = console s"
  "username (clearPingInterval s) = username s" "userCount (clearPingInterval s) = userCount s"
  by (cases "pingInterval s"; simp add: clearPingInterval_def clearInterval_def)+

lemma clearPingInterval_status:
  "clearPingInterval (s\<lparr>status := x\<rparr>) = (clearPingInterval s)\<lparr>status := x\<rparr>"
  by (cases "pingInterval s") (simp_all add: clearPingInterval_def clearInterval_def)

lemma no_ping_after_closeConnection:
  assumes "hb_inv s" and "socket s = Some h"
  shows "\<not> is_ping (timers (closeConnection s) t)"
  using no_ping_after_clear [OF assms(1), of t] assms(2)
  by (simp add: closeConnection_def ws_close_fields clearPingInterval_status)

lemma hb_inv_closeConnection: "hb_inv s \<Longrightarrow> hb_inv (closeConnection s)"
proof (cases "socket s")
  case None
  assume "hb_inv s"
  with None show ?thesis by (simp add: closeConnection_def)
next
  case (Some h)
  assume "hb_inv s"
  from no_ping_after_closeConnection [OF this Some] show ?thesis by (simp add: hb_inv_def)
qed

lemma startPingInterval_timers:
  "timers (startPingInterval c s) =
     (case pingInterval s of None \<Rightarrow> timers s | Some t \<Rightarrow> (timers s)(t := None))
       (nextTimer s \<mapsto> \<lparr>repeats = True, delay = pingIntervalMs c, callback = PingCb\<rparr>)"
  "pingInterval (startPingInterval c s) = Some (nextTimer s)"
  "nextTimer (startPingInterval c s) = Suc (nextTimer s)"
  "status (startPingInterval c s) = status s"
  by (cases "pingInterval s";
      simp add: startPingInterval_def setInterval_def setTimer_def clearInterval_def)+

lemma hb_inv_startPingInterval:
  assumes "hb_inv s" and "status s = 1"
  shows "hb_inv (startPingInterval c s)"
  using assms
  by (cases "pingInterval s") (auto simp: hb_inv_def startPingInterval_timers)

lemma hb_inv_websocketOnOpen: "hb_inv s \<Longrightarrow> hb_inv (websocketOnOpen c now s)"
proof -
  assume "hb_inv s"
  then have "hb_inv (s\<lparr>status := 1\<rparr>)" by (auto simp: hb_inv_def)
  then have "hb_inv (startPingInterval c (s\<lparr>status := 1\<rparr>))"
    by (rule hb_inv_startPingInterval) simp
  then show ?thesis by (simp add: websocketOnOpen_def hb_inv_sendJoinMessage)
qed

lemma no_ping_after_websocketClose:
  assumes "hb_inv s"
  shows "\<not> is_ping (timers (websocketClose c s) t)"
  using no_ping_after_clear [OF assms]
  by (simp add: websocketClose_def Let_def setTimeout_def setTimer_def)

lemma hb_inv_websocketClose: "hb_inv s \<Longrightarrow> hb_inv (websocketClose c s)"
  using no_ping_after_websocketClose [of s c] by (simp add: hb_inv_def)

lemma websocketOnMessage_shape:
  "\<exists>ms uc. websocketOnMessage P now raw s = s\<lparr>messages := ms, userCount := uc\<rparr>"
proof -
  have a: "\<And>x. \<exists>ms uc. s\<lparr>messages := x\<rparr> = s\<lparr>messages := ms, userCount := uc\<rparr>"
  proof -
    fix x
    have "s\<lparr>messages := x\<rparr> = s\<lparr>messages := x, userCount := userCount s\<rparr>" by simp
    then show "\<exists>ms uc. s\<lparr>messages := x\<rparr> = s\<lparr>messages := ms, userCount := uc\<rparr>" by blast
  qed
  have b: "\<And>x. \<exists>ms uc. s\<lparr>userCount := x\<rparr> = s\<lparr>messages := ms, userCount := uc\<rparr>"
  proof -
    fix x
    have "s\<lparr>userCount := x\<rparr> = s\<lparr>messages := messages s, userCount := x\<rparr>" by simp
    then show "\<exists>ms uc. s\<lparr>userCount := x\<rparr> = s\<lparr>messages := ms, userCount := uc\<rparr>" by blast
  qed
  have c: "\<exists>ms uc. s = s\<lparr>messages := ms, userCount := uc\<rparr>"
  proof -
    have "s = s\<lparr>messages := messages s, userCount := userCount s\<rparr>" by simp
    then show ?thesis by blast
  qed
  show ?thesis
    unfolding websocketOnMessage_def
    by (simp add: a b c split: option.split sum.split)
qed

lemma hb_inv_websocketOnMessage: "hb_inv s \<Longrightarrow> hb_inv (websocketOnMessage P now raw s)"
proof -
  assume h: "hb_inv s"
  obtain ms uc where "websocketOnMessage P now raw s = s\<lparr>messages := ms, userCount := uc\<rparr>"
    using websocketOnMessage_shape by blast
  with h show ?thesis by (simp add: hb_inv_def)
qed

lemma hb_inv_pingTick: "hb_inv s \<Longrightarrow> hb_inv (pingTick now s)"
  by (auto simp: pingTick_def hb_inv_clearPingInterval split: option.splits sum.splits
      dest: hb_inv_ws_send)


lemma hb_inv_mono:
  assumes "hb_inv s" and "\<And>t. is_ping (timers s' t) \<Longrightarrow> is_ping (timers s t)"
    and "pingInterval s' = pingInterval s" and "status s' = status s"
  shows "hb_inv s'"
  using assms by (auto simp: hb_inv_def)

lemma hb_inv_clearInterval: "hb_inv s \<Longrightarrow> hb_inv (clearInterval t s)"
  by (rule hb_inv_mono) (auto simp: clearInterval_def split: if_splits)

lemma hb_inv_console_error: "hb_inv s \<Longrightarrow> hb_inv (console_error r s)"
  by (rule hb_inv_same) (simp_all add: console_error_def)

lemma hb_inv_send_chat: "hb_inv s \<Longrightarrow> send_chat now txt s = Inr s' \<Longrightarrow> hb_inv s'"
  by (auto simp: send_chat_def split: option.splits dest: hb_inv_ws_send)

lemma hb_inv_sendChatMessage: "hb_inv s \<Longrightarrow> hb_inv (snd (sendChatMessage c now txt s))"
proof (cases "socket s")
  case None
  assume "hb_inv s"
  with None show ?thesis by (simp add: sendChatMessage_def hb_inv_console_error)
next
  case (Some h)
  assume i: "hb_inv s"
  show ?thesis
  proof (cases "readyState_of s h = Some OPEN")
    case True
    with Some i show ?thesis
      by (auto simp: sendChatMessage_def split: sum.splits dest: hb_inv_send_chat)
  next
    case False
    have "hb_inv (snd (setInterval (WaitCb 0 txt) (connectionInterval c) s))"
      using i by (rule hb_inv_mono) (auto simp: setInterval_def setTimer_def split: if_splits)
    with Some False show ?thesis
      by (simp add: sendChatMessage_def waitForOpenConnection_def)
  qed
qed

lemma hb_inv_tick:
  assumes "hb_inv s" and "waitForOpenConnection_tick c t n txt s = (r, s')"
  shows "hb_inv s'"
proof -
  have "hb_inv (s\<lparr>timers := (timers s)(t \<mapsto>
          \<lparr>repeats = True, delay = connectionInterval c, callback = WaitCb (n + 1) txt\<rparr>)\<rparr>)"
    using assms(1) by (rule hb_inv_mono) (auto split: if_splits)
  with assms show ?thesis
    by (auto simp: waitForOpenConnection_tick_def hb_inv_clearInterval split: if_splits)
qed

lemma hb_inv_resume:
  assumes "hb_inv s"
  shows "hb_inv (snd (sendChatMessage_resume c now t n txt s))"
proof -
  obtain r s1 where w: "waitForOpenConnection_tick c t n txt s = (r, s1)"
    by (cases "waitForOpenConnection_tick c t n txt s")
  from hb_inv_tick [OF assms w] have "hb_inv s1" .
  then show ?thesis
    using w
    by (cases r)
      (auto simp: sendChatMessage_resume_def hb_inv_console_error split: sum.splits
        dest: hb_inv_send_chat)
qed

lemma hb_inv_rename: "hb_inv s \<Longrightarrow> hb_inv (rename now name s)"
proof -
  assume "hb_inv s"
  then have "hb_inv (s\<lparr>username := name\<rparr>)" by (simp add: hb_inv_def)
  then show ?thesis by (simp add: rename_def updateUsername_def hb_inv_sendJoinMessage)
qed

lemma hb_inv_reconnectTick: "hb_inv s \<Longrightarrow> hb_inv (reconnectTick s)"
  by (simp add: reconnectTick_def hb_inv_initWebSocket)

lemma hb_inv_fire:
  assumes "hb_inv s" and "fire c now t s = Some s'"
  shows "hb_inv s'"
proof -
  from assms(2) obtain tm where tm: "timers s t = Some tm"
    by (auto simp: fire_def split: option.splits)
  define s1 where "s1 = (if repeats tm then s else clearInterval t s)"
  have i1: "hb_inv s1" using assms(1) by (simp add: s1_def hb_inv_clearInterval)
  have "s' = (case callback tm of
                PingCb \<Rightarrow> pingTick now s1
              | ReconnectCb \<Rightarrow> reconnectTick s1
              | WaitCb n txt \<Rightarrow> snd (sendChatMessage_resume c now t n txt s1))"
    using assms(2) tm unfolding s1_def by (auto simp: fire_def Let_def)
  with i1 show ?thesis
    by (cases "callback tm") (simp_all add: hb_inv_pingTick hb_inv_reconnectTick hb_inv_resume)
qed

lemma hb_inv_step:
  assumes "hb_inv s" and "step c P e s = Some s'"
  shows "hb_inv s'"
  using assms
  by (cases e)
    (auto simp: hb_inv_initWebSocket hb_inv_closeConnection hb_inv_sendChatMessage
      hb_inv_rename hb_inv_websocketOnOpen hb_inv_set_readyState hb_inv_websocketClose
      hb_inv_websocketOnMessage hb_inv_console_error websocketOnError_def
      split: if_splits dest: hb_inv_fire)

lemma reachable_hb_inv: "reachable c P s \<Longrightarrow> hb_inv s"
  by (induction rule: reachable.induct) (auto simp: hb_inv_init dest: hb_inv_step)

lemma fresh_new_WebSocket: "fresh s \<Longrightarrow> fresh (snd (new_WebSocket s))"
  by (simp add: fresh_def new_WebSocket_def)

lemma fresh_set_readyState: "fresh s \<Longrightarrow> fresh (set_readyState h r s)"
  by (cases "sockets s h") (auto simp: fresh_def set_readyState_def)

lemma fresh_ws_send: "fresh s \<Longrightarrow> ws_send h d s = Inr s' \<Longrightarrow> fresh s'"
  by (auto simp: fresh_def ws_send_def split: option.splits ready_state.splits)

lemma fresh_ws_close: "fresh s \<Longrightarrow> fresh (ws_close h s)"
  by (auto simp: ws_close_def fresh_set_readyState split: option.splits ready_state.splits)

lemma fresh_setTimer: "fresh s \<Longrightarrow> fresh (snd (setTimer tm s))"
  by (simp add: fresh_def setTimer_def)

lemma fresh_clearInterval: "fresh s \<Longrightarrow> fresh (clearInterval t s)"
  by (simp add: fresh_def clearInterval_def)

lemma fresh_console_error: "fresh s \<Longrightarrow> fresh (console_error r s)"
  by (simp add: fresh_def console_error_def)

lemma fresh_home_fields [simp]:
  fixes s :: home
  shows "fresh (s\<lparr>socket := a\<rparr>) = fresh s" "fresh (s\<lparr>status := b\<rparr>) = fresh s"
    "fresh (s\<lparr>messages := m\<rparr>) = fresh s" "fresh (s\<lparr>pingInterval := p\<rparr>) = fresh s"
    "fresh (s\<lparr>username := u\<rparr>) = fresh s" "fresh (s\<lparr>userCount := n\<rparr>) = fresh s"
  by (simp_all add: fresh_def)

lemma fresh_init: "fresh (home_init name)"
  by (simp add: fresh_def home_init_def)

lemma fresh_initWebSocket: "fresh s \<Longrightarrow> fresh (initWebSocket s)"
  using fresh_new_WebSocket [of s] by (simp add: initWebSocket_def split_beta)

lemma fresh_clearPingInterval: "fresh s \<Longrightarrow> fresh (clearPingInterval s)"
  by (cases "pingInterval s") (simp_all add: clearPingInterval_def fresh_clearInterval)

lemma fresh_startPingInterval: "fresh s \<Longrightarrow> fresh (startPingInterval c s)"
  by (cases "pingInterval s")
    (simp_all add: startPingInterval_def setInterval_def split_beta Let_def fresh_setTimer
      fresh_clearInterval)

lemma fresh_sendJoinMessage: "fresh s \<Longrightarrow> fresh (sendJoinMessage now s)"
  by (auto simp: sendJoinMessage_def split: option.splits sum.splits dest: fresh_ws_send)

lemma fresh_websocketOnOpen: "fresh s \<Longrightarrow> fresh (websocketOnOpen c now s)"
  by (simp add: websocketOnOpen_def fresh_sendJoinMessage fresh_startPingInterval)

lemma fresh_websocketClose: "fresh s \<Longrightarrow> fresh (websocketClose c s)"
  by (simp add: websocketClose_def Let_def setTimeout_def fresh_setTimer fresh_clearPingInterval)

lemma fresh_closeConnection: "fresh s \<Longrightarrow> fresh (closeConnection s)"
  by (cases "socket s") (simp_all add: closeConnection_def fresh_ws_close fresh_clearPingInterval)

lemma fresh_websocketOnMessage: "fresh s \<Longrightarrow> fresh (websocketOnMessage P now raw s)"
proof -
  assume f: "fresh s"
  obtain ms uc where "websocketOnMessage P now raw s = s\<lparr>messages := ms, userCount := uc\<rparr>"
    using websocketOnMessage_shape by blast
  with f show ?thesis by simp
qed

lemma fresh_pingTick: "fresh s \<Longrightarrow> fresh (pingTick now s)"
  by (auto simp: pingTick_def fresh_clearPingInterval split: option.splits sum.splits
      dest: fresh_ws_send)

lemma fresh_send_chat: "fresh s \<Longrightarrow> send_chat now txt s = Inr s' \<Longrightarrow> fresh s'"
  by (auto simp: send_chat_def split: option.splits dest: fresh_ws_send)

lemma fresh_sendChatMessage: "fresh s \<Longrightarrow> fresh (snd (sendChatMessage c now txt s))"
  by (auto simp: sendChatMessage_def waitForOpenConnection_def setInterval_def fresh_setTimer
      fresh_console_error split: option.splits sum.splits dest: fresh_send_chat)

lemma fresh_tick:
  assumes "fresh s" and "t < nextTimer s"
  shows "fresh (snd (waitForOpenConnection_tick c t n txt s))"
proof -
  have "fresh (s\<lparr>timers := (timers s)(t \<mapsto>
          \<lparr>repeats = True, delay = connectionInterval c, callback = WaitCb (n + 1) txt\<rparr>)\<rparr>)"
    using assms by (auto simp: fresh_def)
  then show ?thesis
    using assms(1) by (simp add: waitForOpenConnection_tick_def fresh_clearInterval)
qed

lemma fresh_resume:
  assumes "fresh s" and "t < nextTimer s"
  shows "fresh (snd (sendChatMessage_resume c now t n txt s))"
proof -
  obtain r s1 where w: "waitForOpenConnection_tick c t n txt s = (r, s1)"
    by (cases "waitForOpenConnection_tick c t n txt s")
  from fresh_tick [OF assms, of c n "txt"] w have "fresh s1" by simp
  then show ?thesis
    using w
    by (cases r)
      (auto simp: sendChatMessage_resume_def fresh_console_error split: sum.splits
        dest: fresh_send_chat)
qed

lemma fresh_rename: "fresh s \<Longrightarrow> fresh (rename now name s)"
  by (simp add: rename_def updateUsername_def fresh_sendJoinMessage)

lemma fresh_reconnectTick: "fresh s \<Longrightarrow> fresh (reconnectTick s)"
  by (simp add: reconnectTick_def fresh_initWebSocket)

lemma fresh_fire:
  assumes "fresh s" and "fire c now t s = Some s'"
  shows "fresh s'"
proof -
  from assms(2) obtain tm where tm: "timers s t = Some tm"
    by (auto simp: fire_def split: option.splits)
  with assms(1) have lt: "t < nextTimer s"
    by (auto simp: fresh_def not_le [symmetric])
  define s1 where "s1 = (if repeats tm then s else clearInterval t s)"
  have f1: "fresh s1"
    using assms(1) by (simp add: s1_def fresh_clearInterval)
  have lt1: "t < nextTimer s1"
    using lt by (simp add: s1_def clearInterval_def)
  have "s' = (case callback tm of
                PingCb \<Rightarrow> pingTick now s1
              | ReconnectCb \<Rightarrow> reconnectTick s1
              | WaitCb n txt \<Rightarrow> snd (sendChatMessage_resume c now t n txt s1))"
    using assms(2) tm unfolding s1_def by (auto simp: fire_def Let_def)
  with f1 lt1 show ?thesis
    by (cases "callback tm") (simp_all add: fresh_pingTick fresh_reconnectTick fresh_resume)
qed

lemma fresh_step:
  assumes "fresh s" and "step c P e s = Some s'"
  shows "fresh s'"
  using assms
  by (cases e)
    (auto simp: fresh_initWebSocket fresh_closeConnection fresh_sendChatMessage
      fresh_rename fresh_websocketOnOpen fresh_set_readyState fresh_websocketClose
      fresh_websocketOnMessage fresh_console_error websocketOnError_def
      split: if_splits dest: fresh_fire)

lemma reachable_fresh: "reachable c P s \<Longrightarrow> fresh s"
  by (induction rule: reachable.induct) (auto simp: fresh_init dest: fresh_step)

section \<open>Connecting\<close>

lemma run_append:
  "run c P (xs @ ys) s = (case run c P xs s of None \<Rightarrow> None | Some s' \<Rightarrow> run c P ys s')"
  by (induction xs arbitrary: s) (auto split: option.splits)

lemma run_reachable:
  "reachable c P s \<Longrightarrow> run c P es s = Some s' \<Longrightarrow> reachable c P s'"
proof (induction es arbitrary: s)
  case Nil
  then show ?case by simp
next
  case (Cons e es)
  then show ?case
    by (auto split: option.splits intro: reachable.reach_step)
qed

lemma heartbeat_active_iff:
  "heartbeat_active s \<longleftrightarrow> (\<exists>t<nextTimer s. is_ping (timers s t))"
  by (auto simp: heartbeat_active_def heartbeat_timers_def filter_empty_conv)

lemma live_initWebSocket: "live (initWebSocket s) = live s @ [nextSocket s]"
proof -
  let ?s' = "initWebSocket s"
  have old: "\<And>h. h < nextSocket s \<Longrightarrow> readyState_of ?s' h = readyState_of s h"
    by (simp add: initWebSocket_def new_WebSocket_def readyState_of_def)
  have new: "readyState_of ?s' (nextSocket s) = Some CONNECTING"
    by (simp add: initWebSocket_def new_WebSocket_def readyState_of_def)
  have n: "nextSocket ?s' = Suc (nextSocket s)"
    by (simp add: initWebSocket_def new_WebSocket_def)
  have "filter (\<lambda>h. readyState_of ?s' h = Some CONNECTING \<or> readyState_of ?s' h = Some OPEN)
          [0 ..< nextSocket s] =
        filter (\<lambda>h. readyState_of s h = Some CONNECTING \<or> readyState_of s h = Some OPEN)
          [0 ..< nextSocket s]"
    by (rule filter_cong) (simp_all add: old)
  then show ?thesis
    by (simp add: live_def n new)
qed

text \<open>
  C1, as stated, fails: \<^verbatim>\<open>initWebSocket\<close> has no guard. After one click on Connect the
  status is still 0 and the transport is in its handshake; a second click (the button
  is shown while the status is 0) creates a second transport and leaves the first one
  alive.
\<close>

theorem second_connect_opens_second_transport:
  "map_option status (run default_config example_platform [Connect] (home_init ''Guest-1''))
     = Some 0 \<and>
   map_option (socket_at 0)
     (run default_config example_platform [Connect] (home_init ''Guest-1''))
     = Some (Some \<lparr>readyState = CONNECTING, sent = []\<rparr>) \<and>
   map_option live (run default_config example_platform [Connect] (home_init ''Guest-1''))
     = Some [0] \<and>
   map_option socket
     (run default_config example_platform [Connect, Connect] (home_init ''Guest-1''))
     = Some (Some 1) \<and>
   map_option live
     (run default_config example_platform [Connect, Connect] (home_init ''Guest-1''))
     = Some [0, 1]"
  by (simp add: view_eval live_def)

text \<open>
  C1, amended: in every reachable state and whatever the status, \<^verbatim>\<open>initWebSocket\<close>
  creates a transport under a handle not used before, in its handshake, and makes it the
  current one; every earlier transport stays as it was (none is closed), so the live
  transports are the earlier ones and the new one; status, message log, user count,
  username and timers are unchanged. \<^verbatim>\<open>Websocket.connect\<close> of the service class does
  the same.
\<close>

theorem connect_opens_new_transport:
  assumes "reachable c P s"
  shows "socket (initWebSocket s) = Some (nextSocket s) \<and>
         sockets s (nextSocket s) = None \<and>
         readyState_of (initWebSocket s) (nextSocket s) = Some CONNECTING \<and>
         (\<forall>h. h \<noteq> nextSocket s \<longrightarrow> sockets (initWebSocket s) h = sockets s h) \<and>
         live (initWebSocket s) = live s @ [nextSocket s] \<and>
         status (initWebSocket s) = status s \<and>
         messages (initWebSocket s) = messages s \<and>
         userCount (initWebSocket s) = userCount s \<and>
         username (initWebSocket s) = username s \<and>
         pingInterval (initWebSocket s) = pingInterval s \<and>
         timers (initWebSocket s) = timers s \<and>
         ws (Websocket_connect v) = Some (nextSocket v) \<and>
         readyState_of (Websocket_connect v) (nextSocket v) = Some CONNECTING \<and>
         (\<forall>h. h \<noteq> nextSocket v \<longrightarrow> sockets (Websocket_connect v) h = sockets v h) \<and>
         status_svc (Websocket_connect v) = status_svc v"
proof -
  from reachable_fresh [OF assms] have "sockets s (nextSocket s) = None"
    by (simp add: fresh_def)
  moreover have "ws (Websocket_connect v) = Some (nextSocket v) \<and>
         readyState_of (Websocket_connect v) (nextSocket v) = Some CONNECTING \<and>
         (\<forall>h. h \<noteq> nextSocket v \<longrightarrow> sockets (Websocket_connect v) h = sockets v h) \<and>
         status_svc (Websocket_connect v) = status_svc v"
    by (simp add: Websocket_connect_def new_WebSocket_def readyState_of_def)
  ultimately show ?thesis
    by (simp add: live_initWebSocket)
      (simp add: initWebSocket_def new_WebSocket_def readyState_of_def)
qed

theorem connect_opens_new_transport_witness:
  "reachable default_config example_platform (initWebSocket (home_init ''Guest-1'')) \<and>
   live (initWebSocket (home_init ''Guest-1'')) = [0] \<and>
   status (initWebSocket (initWebSocket (home_init ''Guest-1''))) = 0 \<and>
   socket (initWebSocket (initWebSocket (home_init ''Guest-1''))) = Some 1 \<and>
   live (initWebSocket (initWebSocket (home_init ''Guest-1''))) = [0, 1]"
proof -
  have "step default_config example_platform Connect (home_init ''Guest-1'')
          = Some (initWebSocket (home_init ''Guest-1''))"
    by simp
  with reachable.reach_init [of default_config example_platform "''Guest-1''"]
  have r: "reachable default_config example_platform (initWebSocket (home_init ''Guest-1''))"
    by (rule reachable.reach_step)
  have l: "live (initWebSocket (home_init ''Guest-1'')) = [0]"
    and n: "nextSocket (initWebSocket (home_init ''Guest-1'')) = 1"
    and st: "status (initWebSocket (home_init ''Guest-1'')) = 0"
    by (simp_all add: view_eval live_def)
  show ?thesis
    using r l n st connect_opens_new_transport [OF r, of Websocket_constructor] by simp
qed

section \<open>The heartbeat\<close>

lemmas svc_eval = Websocket_constructor_def Websocket_connect_def Websocket_heartHandler_def
  heartTick_def Websocket_onopen_def Websocket_send_def Websocket_close_def
  Websocket_onClose_def reconnectTick_svc_def new_WebSocket_def readyState_of_def
  set_readyState_def ws_send_def ws_close_def setTimer_def setInterval_def setTimeout_def
  clearInterval_def console_error_def socket_at_def timer_at_def Let_def


text \<open>
  In the view the other direction can fail once two transports are in play: a socket
  left in its handshake opens after a disconnect and sets the status to 1 while
  \<^verbatim>\<open>socket.value\<close> is null, and the next heartbeat tick cancels the timer.
\<close>

lemma connected_without_heartbeat:
  "map_option status
     (run default_config example_platform
        [Connect, Connect, WsOpen 1 ''09:00'', Disconnect, WsOpen 0 ''09:01'', Fire 2 ''09:02'']
        (home_init ''Guest-1'')) = Some 1 \<and>
   map_option heartbeat_active
     (run default_config example_platform
        [Connect, Connect, WsOpen 1 ''09:00'', Disconnect, WsOpen 0 ''09:01'', Fire 2 ''09:02'']
        (home_init ''Guest-1'')) = Some False"
  by (simp add: view_eval heartbeat_active_def heartbeat_timers_def is_ping_def upt_rec)

lemma no_heartbeat:
  assumes "\<And>t. \<not> is_ping (timers s t)"
  shows "\<not> heartbeat_active s"
  using assms by (simp add: heartbeat_active_iff)



lemma status_after_close: "status (websocketClose c s) = (if status s = 2 then 2 else 0)"
  by (simp add: websocketClose_def Let_def setTimeout_def setTimer_def clearPingInterval_fields)

text \<open>
  In the service class an interval started by an earlier open is never cancelled:
  \<^verbatim>\<open>heartHandler\<close> overwrites \<^verbatim>\<open>pingInterval\<close>, and a tick cancels the id found
  there. After a reconnect and a manual close the first interval stays armed over any
  number of its own ticks.
\<close>

lemma earlier_interval_stays_armed:
  "map_option status_svc
     (svc_run [SvcConnect, SvcOpen 0, SvcClosed 0, SvcFire 2, SvcOpen 1, SvcClose,
               SvcFire 1, SvcFire 1, SvcFire 1] Websocket_constructor) = Some 2 \<and>
   map_option (timer_at 1)
     (svc_run [SvcConnect, SvcOpen 0, SvcClosed 0, SvcFire 2, SvcOpen 1, SvcClose,
               SvcFire 1, SvcFire 1, SvcFire 1] Websocket_constructor)
     = Some (Some \<lparr>repeats = True, delay = 10000, callback = HeartCb\<rparr>) \<and>
   map_option (timer_at 3)
     (svc_run [SvcConnect, SvcOpen 0, SvcClosed 0, SvcFire 2, SvcOpen 1, SvcClose,
               SvcFire 1, SvcFire 1, SvcFire 1] Websocket_constructor) = Some None"
  by (simp add: svc_eval)




section \<open>Closing\<close>

lemma is_reconnect_simps [simp]:
  "is_reconnect None = False"
  "is_reconnect (Some \<lparr>repeats = r, delay = d, callback = cb\<rparr>) = (cb = ReconnectCb)"
  by (simp_all add: is_reconnect_def)


























text \<open>
  In the view, the close event of a manually closed transport that arrives after a new
  transport has opened finds the status 1: it stops the new heartbeat, arms the
  reconnect timer, and the timer opens a third transport beside the second.
\<close>

lemma late_close_reconnects:
  "map_option status
     (run default_config example_platform
        [Connect, WsOpen 0 ''09:00'', Disconnect, Connect, WsOpen 1 ''09:01'', WsClose 0,
         Fire 3 ''09:02'']
        (home_init ''Guest-1'')) = Some 0 \<and>
   map_option live
     (run default_config example_platform
        [Connect, WsOpen 0 ''09:00'', Disconnect, Connect, WsOpen 1 ''09:01'', WsClose 0,
         Fire 3 ''09:02'']
        (home_init ''Guest-1'')) = Some [1, 2]"
  by (simp add: view_eval live_def)



text \<open>
  C5, as stated, fails in its last part: after an unexpected close, a connect issued
  before the delay has elapsed leaves the status 0 while its transport is in its
  handshake, so the timer still calls \<^verbatim>\<open>initWebSocket\<close> and a second transport is
  opened beside it.
\<close>

theorem reconnect_timer_opens_second_transport:
  "map_option status
     (run default_config example_platform [Connect, WsClose 0, Connect, Fire 1 ''09:00'']
        (home_init ''Guest-1'')) = Some 0 \<and>
   map_option (socket_at 1)
     (run default_config example_platform [Connect, WsClose 0, Connect, Fire 1 ''09:00'']
        (home_init ''Guest-1''))
     = Some (Some \<lparr>readyState = CONNECTING, sent = []\<rparr>) \<and>
   map_option (socket_at 2)
     (run default_config example_platform [Connect, WsClose 0, Connect, Fire 1 ''09:00'']
        (home_init ''Guest-1''))
     = Some (Some \<lparr>readyState = CONNECTING, sent = []\<rparr>) \<and>
   map_option live
     (run default_config example_platform [Connect, WsClose 0, Connect, Fire 1 ''09:00'']
        (home_init ''Guest-1'')) = Some [1, 2]"
  by (simp add: view_eval live_def)

lemma reconnect_fire:
  assumes "timers s t = Some \<lparr>repeats = False, delay = d, callback = ReconnectCb\<rparr>"
  shows "fire c now t s =
           Some (if status s = 0 then initWebSocket (clearInterval t s) else clearInterval t s)"
  using assms by (simp add: fire_def reconnectTick_def clearInterval_def)

text \<open>
  C5, amended: a transport-close event that finds the status different from 2 sets the
  status to 0, leaves no heartbeat timer armed in the view, and arms exactly one new
  one-shot timer with the delay \<^verbatim>\<open>reconnectTimeout\<close>; when such a timer fires it is
  removed, and it calls \<^verbatim>\<open>initWebSocket\<close> exactly when the status is 0 at that
  moment: a manual disconnect (status 2) or a connect whose transport has opened
  (status 1) suppresses it. The service class sets the status to 0 and arms its one-shot
  timer likewise, with the same rule for its callback, and cancels no timer: its
  heartbeat interval stays armed.
\<close>

theorem unexpected_close_schedules_reconnect:
  assumes "reachable c P s" and "status s \<noteq> 2" and "step c P (WsClose h) s = Some s'"
  shows "status s' = 0 \<and> \<not> heartbeat_active s' \<and> pingInterval s' = None \<and>
         timers s (nextTimer s) = None \<and>
         timers s' (nextTimer s) =
           Some \<lparr>repeats = False, delay = reconnectTimeout c, callback = ReconnectCb\<rparr> \<and>
         nextTimer s' = Suc (nextTimer s) \<and>
         (\<forall>t. t \<noteq> nextTimer s \<longrightarrow> timers s' t = timers s t \<or> timers s' t = None) \<and>
         (\<forall>now t d s2.
            timers s2 t = Some \<lparr>repeats = False, delay = d, callback = ReconnectCb\<rparr> \<longrightarrow>
            fire c now t s2 =
              Some (if status s2 = 0 then initWebSocket (clearInterval t s2)
                    else clearInterval t s2)) \<and>
         (status_svc v \<noteq> 2 \<longrightarrow>
            status_svc (Websocket_onClose v) = 0 \<and>
            timers (Websocket_onClose v) =
              (timers v)(nextTimer v \<mapsto>
                \<lparr>repeats = False, delay = reconnect v, callback = SvcReconnectCb\<rparr>)) \<and>
         (\<forall>t d u.
            timers u t = Some \<lparr>repeats = False, delay = d, callback = SvcReconnectCb\<rparr> \<longrightarrow>
            svc_step (SvcFire t) u =
              Some (if status_svc u = 0 then Websocket_connect (clearInterval t u)
                    else clearInterval t u))"
proof -
  let ?s1 = "set_readyState h CLOSED s"
  from assms(3) have s': "s' = websocketClose c ?s1"
    by (auto split: if_splits)
  have f1: "status ?s1 = status s" "nextTimer ?s1 = nextTimer s" "timers ?s1 = timers s"
    "pingInterval ?s1 = pingInterval s"
    by (cases "sockets s h"; simp add: set_readyState_def)+
  have inv: "hb_inv ?s1" using reachable_hb_inv [OF assms(1)] by (rule hb_inv_set_readyState)
  have a: "status s' = 0"
    using assms(2) by (simp add: s' status_after_close f1)
  have b: "\<not> heartbeat_active s'"
    unfolding s' using no_ping_after_websocketClose [OF inv, of c] by (rule no_heartbeat)
  have fr: "timers s (nextTimer s) = None"
    using reachable_fresh [OF assms(1)] by (simp add: fresh_def)
  have close_eq: "s' = (clearPingInterval ?s1)
      \<lparr>status := 0,
        timers := (timers (clearPingInterval ?s1))(nextTimer s \<mapsto>
          \<lparr>repeats = False, delay = reconnectTimeout c, callback = ReconnectCb\<rparr>),
        nextTimer := Suc (nextTimer s)\<rparr>"
    using assms(2)
    by (simp add: s' websocketClose_def Let_def setTimeout_def setTimer_def
        clearPingInterval_fields f1)
  have c1: "pingInterval s' = None"
    "timers s' (nextTimer s) =
       Some \<lparr>repeats = False, delay = reconnectTimeout c, callback = ReconnectCb\<rparr>"
    "nextTimer s' = Suc (nextTimer s)"
    by (simp_all add: close_eq clearPingInterval_fields)
  have c2: "\<forall>t. t \<noteq> nextTimer s \<longrightarrow> timers s' t = timers s t \<or> timers s' t = None"
    by (cases "pingInterval s")
      (auto simp: close_eq clearPingInterval_def clearInterval_def f1)
  have d: "\<forall>now t d s2.
            timers s2 t = Some \<lparr>repeats = False, delay = d, callback = ReconnectCb\<rparr> \<longrightarrow>
            fire c now t s2 =
              Some (if status s2 = 0 then initWebSocket (clearInterval t s2)
                    else clearInterval t s2)"
    by (intro allI impI) (rule reconnect_fire)
  have e: "status_svc v \<noteq> 2 \<longrightarrow>
            status_svc (Websocket_onClose v) = 0 \<and>
            timers (Websocket_onClose v) =
              (timers v)(nextTimer v \<mapsto>
                \<lparr>repeats = False, delay = reconnect v, callback = SvcReconnectCb\<rparr>)"
    by (simp add: Websocket_onClose_def Let_def setTimeout_def setTimer_def console_error_def)
  have g: "\<forall>t d u.
            timers u t = Some \<lparr>repeats = False, delay = d, callback = SvcReconnectCb\<rparr> \<longrightarrow>
            svc_step (SvcFire t) u =
              Some (if status_svc u = 0 then Websocket_connect (clearInterval t u)
                    else clearInterval t u)"
    by (simp add: reconnectTick_svc_def clearInterval_def)
  show ?thesis
    using a b c1 fr c2 d e g by - (intro conjI, assumption+)
qed

theorem unexpected_close_schedules_reconnect_witness:
  "(case run default_config example_platform [Connect, WsOpen 0 ''09:00''] (home_init ''Guest-1'') of
      None \<Rightarrow> False
    | Some s \<Rightarrow>
        reachable default_config example_platform s \<and> status s = 1 \<and> nextTimer s = 2 \<and>
        (case step default_config example_platform (WsClose 0) s of
           None \<Rightarrow> False
         | Some s' \<Rightarrow>
             status s' = 0 \<and> \<not> heartbeat_active s' \<and>
             timers s' 2 = Some \<lparr>repeats = False, delay = 5000, callback = ReconnectCb\<rparr> \<and>
             nextTimer s' = 3)) \<and>
   (case svc_run [SvcConnect, SvcOpen 0] Websocket_constructor of
      None \<Rightarrow> False
    | Some v \<Rightarrow>
        status_svc v \<noteq> 2 \<and> status_svc (Websocket_onClose v) = 0 \<and>
        timer_at 1 (Websocket_onClose v)
          = Some \<lparr>repeats = True, delay = 10000, callback = HeartCb\<rparr> \<and>
        timer_at 2 (Websocket_onClose v)
          = Some \<lparr>repeats = False, delay = 5000, callback = SvcReconnectCb\<rparr> \<and>
        map_option ws (svc_step (SvcFire 2) (Websocket_onClose v)) = Some (Some 1))"
proof -
  define s where
    "s = websocketOnOpen default_config ''09:00''
           (set_readyState 0 OPEN (initWebSocket (home_init ''Guest-1'')))"
  define s' where "s' = websocketClose default_config (set_readyState 0 CLOSED s)"
  define v where
    "v = Websocket_onopen (set_readyState 0 OPEN (Websocket_connect Websocket_constructor))"
  have r: "run default_config example_platform [Connect, WsOpen 0 ''09:00''] (home_init ''Guest-1'')
             = Some s"
    by (simp add: s_def view_eval)
  have re: "reachable default_config example_platform s"
    using reachable.reach_init r by (rule run_reachable)
  have st: "status s \<noteq> 2" "status s = 1" and nt: "nextTimer s = 2"
    by (simp_all add: s_def view_eval)
  have cl: "step default_config example_platform (WsClose 0) s = Some s'"
    by (simp add: s'_def s_def view_eval)
  have rv: "svc_run [SvcConnect, SvcOpen 0] Websocket_constructor = Some v"
    by (simp add: v_def svc_eval)
  have v1: "status_svc v \<noteq> 2" "nextTimer v = 2" "reconnect v = 5000" "nextSocket v = 1"
    "timers v 1 = Some \<lparr>repeats = True, delay = 10000, callback = HeartCb\<rparr>"
    by (simp_all add: v_def svc_eval)
  note t = unexpected_close_schedules_reconnect [OF re st(1) cl, of v]
  from t nt
  have view: "status s' = 0 \<and> \<not> heartbeat_active s' \<and>
        timers s' 2 = Some \<lparr>repeats = False, delay = 5000, callback = ReconnectCb\<rparr> \<and>
        nextTimer s' = 3"
    by (simp add: default_config_def)
  from t v1(1)
  have oc: "status_svc (Websocket_onClose v) = 0"
    "timers (Websocket_onClose v) =
       (timers v)(nextTimer v \<mapsto>
         \<lparr>repeats = False, delay = reconnect v, callback = SvcReconnectCb\<rparr>)"
    by blast+
  have armed: "timers (Websocket_onClose v) 2
      = Some \<lparr>repeats = False, delay = 5000, callback = SvcReconnectCb\<rparr>"
    "timers (Websocket_onClose v) 1 = Some \<lparr>repeats = True, delay = 10000, callback = HeartCb\<rparr>"
    using v1 by (simp_all add: oc(2))
  from t armed(1)
  have "svc_step (SvcFire 2) (Websocket_onClose v) =
          Some (if status_svc (Websocket_onClose v) = 0
                then Websocket_connect (clearInterval 2 (Websocket_onClose v))
                else clearInterval 2 (Websocket_onClose v))"
    by blast
  then have fired: "map_option ws (svc_step (SvcFire 2) (Websocket_onClose v)) = Some (Some 1)"
    using v1 by (simp add: oc(1) Websocket_connect_def new_WebSocket_def clearInterval_def
        Websocket_onClose_def Let_def setTimeout_def setTimer_def console_error_def)
  from r re st nt cl view rv v1 oc(1) armed fired show ?thesis
    by (simp add: timer_at_def)
qed

end
